theory Spec2Isabelle
  imports Complex_Main "HOL-Library.AList" "HOL-Library.Monad_Syntax" "HOL-Library.Log_Nat"
begin

section \<open>Meter stability filter (FuelStateMachine.meterReading)\<close>

text \<open>
  The filter is the \<^verbatim>\<open>meterReading\<close> object of the state machine.  Readings are
  finite numbers, each held as the rational it denotes; the filter only stores them and
  compares them with \<^verbatim>\<open>===\<close>, which is equality.  \<^verbatim>\<open>Date.now()\<close> is an explicit
  argument \<open>now\<close> (milliseconds); one call of a synchronous method reads the clock once.
  \<^verbatim>\<open>stabilityTimestamp\<close> starts as \<^verbatim>\<open>null\<close> (\<open>None\<close>).
\<close>

record meter =
  current :: rat
  lastStable :: rat
  lastSaved :: rat
  stabilityTimestamp :: "int option"
  readings :: "rat list"
  stabilityThreshold :: nat
  stabilityTimeoutMs :: int

text \<open>The object literal of the constructor, of \<^verbatim>\<open>resetStateMachine\<close>,
  \<^verbatim>\<open>initializeRefill\<close> and \<^verbatim>\<open>resetDeviceStates\<close>.\<close>

definition meter_init :: meter where
  "meter_init = \<lparr> current = 0, lastStable = 0, lastSaved = 0, stabilityTimestamp = None,
     readings = [], stabilityThreshold = 2, stabilityTimeoutMs = 5000 \<rparr>"

text \<open>\<^verbatim>\<open>xs.slice(-n)\<close>: the last \<open>n\<close> elements; \<^verbatim>\<open>slice(-0)\<close> is \<^verbatim>\<open>slice(0)\<close>, the whole array.\<close>

definition slice_last :: "nat \<Rightarrow> 'a list \<Rightarrow> 'a list" where
  "slice_last n xs = (if n = 0 then xs else drop (length xs - n) xs)"

text \<open>\<^verbatim>\<open>Date.now() - this.meterReading.stabilityTimestamp\<close>; \<^verbatim>\<open>null\<close> converts to 0.\<close>

definition timeSinceFirst :: "meter \<Rightarrow> int \<Rightarrow> int" where
  "timeSinceFirst m now = (case stabilityTimestamp m of None \<Rightarrow> now | Some t \<Rightarrow> now - t)"

definition isMeterReadingStable :: "meter \<Rightarrow> int \<Rightarrow> bool" where
  "isMeterReadingStable m now =
     (if length (readings m) < stabilityThreshold m then False
      else
        let lastReadings = slice_last (stabilityThreshold m) (readings m);
            allEqual = (case lastReadings of [] \<Rightarrow> True
                        | r0 # _ \<Rightarrow> list_all (\<lambda>reading. reading = r0) lastReadings)
        in if allEqual then timeSinceFirst m now \<ge> stabilityTimeoutMs m else False)"

definition addMeterReading :: "meter \<Rightarrow> rat \<Rightarrow> int \<Rightarrow> bool \<times> meter" where
  "addMeterReading m reading now =
     (let m1 = (if length (readings m) = 0 then m\<lparr>stabilityTimestamp := Some now\<rparr> else m);
          m2 = m1\<lparr>readings := readings m1 @ [reading]\<rparr>;
          m3 = m2\<lparr>current := reading\<rparr>;
          m4 = (if length (readings m3) > stabilityThreshold m3 * 2
                then m3\<lparr>readings := tl (readings m3)\<rparr> else m3);
          isStable = isMeterReadingStable m4 now;
          m5 = (if isStable then m4\<lparr>lastStable := reading\<rparr> else m4)
      in (isStable, m5))"

text \<open>A run of the filter: the replies \<open>(value, arrival time)\<close> are added in order, starting
  from filter state \<open>m\<close>; the result is the last report and the final filter state.\<close>

definition feed :: "meter \<Rightarrow> (rat \<times> int) list \<Rightarrow> bool \<times> meter" where
  "feed m rs = foldl (\<lambda>(b, m') (v, t). addMeterReading m' v t) (False, m) rs"

section \<open>JavaScript values and strings\<close>

text \<open>
  A number is a finite double, held as the rational it denotes, or one of the three
  non-finite doubles.  Objects are property
  lists in insertion order; reading a property that is not there gives \<^verbatim>\<open>undefined\<close>.
  \<open>JNumberToString r\<close> stands for the string \<^verbatim>\<open>r.toString()\<close> of a number \<open>r\<close>; its
  characters are not modelled.
\<close>

datatype jsnum = Finite rat | NaN | PosInfinity | NegInfinity

datatype jsval =
    JUndefined
  | JNull
  | JBool bool
  | JNumber jsnum
  | JString string
  | JNumberToString rat
  | JObject "(string \<times> jsval) list"

type_synonym jsobj = "(string \<times> jsval) list"

definition get_prop :: "jsobj \<Rightarrow> string \<Rightarrow> jsval" where
  "get_prop obj k = (case map_of obj k of None \<Rightarrow> JUndefined | Some v \<Rightarrow> v)"

definition set_prop :: "string \<Rightarrow> jsval \<Rightarrow> jsobj \<Rightarrow> jsobj" where
  "set_prop k v obj = AList.update k v obj"

text \<open>\<^verbatim>\<open>{...obj, k1: v1, ...}\<close>; spreading \<^verbatim>\<open>null\<close> gives the empty object.\<close>

definition spread :: "jsobj option \<Rightarrow> jsobj \<Rightarrow> jsobj" where
  "spread obj props = foldl (\<lambda>acc (k, v). set_prop k v acc) (case obj of None \<Rightarrow> [] | Some x \<Rightarrow> x) props"

definition startsWith :: "string \<Rightarrow> string \<Rightarrow> bool" where
  "startsWith s p = (take (length p) s = p)"

text \<open>\<^verbatim>\<open>s.includes(p)\<close>.\<close>

fun includes_str :: "string \<Rightarrow> string \<Rightarrow> bool" where
  "includes_str [] p = (p = [])"
| "includes_str (c # cs) p = (startsWith (c # cs) p \<or> includes_str cs p)"

definition is_digit :: "char \<Rightarrow> bool" where
  "is_digit c = (c \<in> set ''0123456789'')"

definition is_hex :: "char \<Rightarrow> bool" where
  "is_hex c = (c \<in> set ''0123456789abcdefABCDEF'')"

definition digit_val :: "char \<Rightarrow> nat" where
  "digit_val c =
     (if is_digit c then of_char c - 48
      else if c \<in> set ''abcdef'' then of_char c - 87
      else of_char c - 55)"

text \<open>The value of a digit string in the given radix, most significant digit first.\<close>

definition digits_value :: "nat \<Rightarrow> string \<Rightarrow> nat" where
  "digits_value radix ds = foldl (\<lambda>acc c. acc * radix + digit_val c) 0 ds"

subsection \<open>Double precision\<close>

text \<open>
  JavaScript numbers are IEEE 754 doubles.  \<open>round_double x\<close> is the double nearest to the
  rational \<open>x\<close>, ties to the even significand: \<open>exponent2\<close> is the binary exponent
  \<open>\<lfloor>log\<^sub>2 x\<rfloor>\<close> of a positive \<open>x\<close>, kept at \<open>- 1022\<close> or above for the subnormal
  range, and the significand has 53 bits.  The result is exact for every \<open>x\<close> below
  \<open>2 ^ 1024 - 2 ^ 970\<close> in magnitude; from there on a double is infinite, which a rational
  does not hold, so the callers test that bound where it matters.  \<open>double_sub\<close> is the
  subtraction \<^verbatim>\<open>a - b\<close> of two doubles.
\<close>

definition round_half_even :: "rat \<Rightarrow> int" where
  "round_half_even y =
     (let f = \<lfloor>y\<rfloor>; d = y - of_int f
      in if d < 1 / 2 then f else if d > 1 / 2 then f + 1 else if even f then f else f + 1)"

definition exponent2 :: "rat \<Rightarrow> int" where
  "exponent2 x = (if x \<ge> 1 then bitlen \<lfloor>x\<rfloor> - 1 else - bitlen (\<lceil>1 / x\<rceil> - 1))"

definition pow2 :: "int \<Rightarrow> rat" where
  "pow2 k = (if k \<ge> 0 then 2 ^ nat k else 1 / 2 ^ nat (- k))"

definition round_double :: "rat \<Rightarrow> rat" where
  "round_double x =
     (if x = 0 then 0
      else let a = \<bar>x\<bar>;
               e = max (exponent2 a) (- 1022);
               q = pow2 (e - 52)
           in sgn x * of_int (round_half_even (a / q)) * q)"

definition double_sub :: "rat \<Rightarrow> rat \<Rightarrow> rat" where
  "double_sub a b = round_double (a - b)"

text \<open>
  The Number value of a mathematical integer, as \<^verbatim>\<open>parseInt\<close> computes it from a run of
  digits: the nearest double, infinite from \<open>2 ^ 1024 - 2 ^ 970\<close> on.
\<close>

definition number_of_int :: "int \<Rightarrow> jsnum" where
  "number_of_int n =
     (if n \<ge> 2 ^ 1024 - 2 ^ 970 then PosInfinity
      else if n \<le> - (2 ^ 1024 - 2 ^ 970) then NegInfinity
      else Finite (round_double (of_int n)))"

subsection \<open>The regular expressions of the parsers\<close>

text \<open>
  Each pattern is a sequence of literals and of greedy character classes \<^verbatim>\<open>\\d+\<close>,
  \<^verbatim>\<open>[A-Fa-f0-9]+\<close>; every class is followed by a literal character outside the class, so
  the longest run is the only one that can match.  \<^verbatim>\<open>String.match\<close> without the \<^verbatim>\<open>g\<close>
  flag returns the leftmost match.
\<close>

definition lit :: "string \<Rightarrow> string \<Rightarrow> string option" where
  "lit l s = (if startsWith s l then Some (drop (length l) s) else None)"

definition class1 :: "(char \<Rightarrow> bool) \<Rightarrow> string \<Rightarrow> (string \<times> string) option" where
  "class1 p s = (if takeWhile p s = [] then None else Some (takeWhile p s, dropWhile p s))"

fun leftmost :: "(string \<Rightarrow> 'a option) \<Rightarrow> string \<Rightarrow> 'a option" where
  "leftmost f [] = f []"
| "leftmost f (c # cs) = (case f (c # cs) of Some r \<Rightarrow> Some r | None \<Rightarrow> leftmost f cs)"

text \<open>\<^verbatim>\<open>/rfid_get\\((\\d+),([A-Fa-f0-9]+),(\\d+)\\)/\<close> at the start of \<open>s\<close>: the three groups.\<close>

definition rfid_get_at :: "string \<Rightarrow> (string \<times> string \<times> string) option" where
  "rfid_get_at s = do {
     r1 \<leftarrow> lit ''rfid_get('' s;
     (g1, r2) \<leftarrow> class1 is_digit r1;
     r3 \<leftarrow> lit '','' r2;
     (g2, r4) \<leftarrow> class1 is_hex r3;
     r5 \<leftarrow> lit '','' r4;
     (g3, r6) \<leftarrow> class1 is_digit r5;
     _ \<leftarrow> lit '')'' r6;
     Some (g1, g2, g3) }"

text \<open>\<^verbatim>\<open>UartService.parseRfidResponse\<close>.\<close>

definition parseRfidResponse :: "string \<Rightarrow> jsobj option" where
  "parseRfidResponse response =
     (case leftmost rfid_get_at response of
        Some (g1, g2, g3) \<Rightarrow>
          Some [(''nozzleId'', JString g1), (''rfidTag'', JString g2),
                (''batteryState'', JNumber (number_of_int (int (digits_value 10 g3))))]
      | None \<Rightarrow> None)"

text \<open>\<^verbatim>\<open>/meter_read\\((\\d+(?:\\.\\d+)?)\\)/\<close> at the start of \<open>s\<close>: integer and fraction digits.\<close>

definition meter_read_at :: "string \<Rightarrow> (string \<times> string) option" where
  "meter_read_at s = do {
     r1 \<leftarrow> lit ''meter_read('' s;
     (ip, r2) \<leftarrow> class1 is_digit r1;
     (fp, r3) \<leftarrow> (case lit ''.'' r2 of
                    None \<Rightarrow> Some ([], r2)
                  | Some r \<Rightarrow> (case class1 is_digit r of None \<Rightarrow> Some ([], r2) | Some m \<Rightarrow> Some m));
     _ \<leftarrow> lit '')'' r3;
     Some (ip, fp) }"

text \<open>\<^verbatim>\<open>UartService.parseMeterResponse\<close>: \<^verbatim>\<open>parseFloat\<close> of the matched decimal, the double
  nearest to it, and \<open>None\<close> for \<^verbatim>\<open>null\<close>.  A decimal of \<open>2 ^ 1024 - 2 ^ 970\<close> or more (309
  digits), for which \<^verbatim>\<open>parseFloat\<close> is \<^verbatim>\<open>Infinity\<close>, gives a result of \<open>2 ^ 1024\<close> or more
  here; such replies are outside the model of the readings.\<close>

definition parseMeterResponse :: "string \<Rightarrow> rat option" where
  "parseMeterResponse response =
     (case leftmost meter_read_at response of
        Some (ip, fp) \<Rightarrow>
          Some (round_double
                  (of_nat (digits_value 10 ip) + of_nat (digits_value 10 fp) / 10 ^ length fp))
      | None \<Rightarrow> None)"

text \<open>The first group of \<^verbatim>\<open>/nhb\\((\\d+),(\\d+)\\)/\<close>, \<^verbatim>\<open>/rfid_match\\((\\d+),(\\d+)\\)/\<close> and
  \<^verbatim>\<open>/rfid_alarm\\((\\d+)\\)/\<close>, the only group \<^verbatim>\<open>handleUartResponse\<close> reads.\<close>

definition verb2_at :: "string \<Rightarrow> string \<Rightarrow> string option" where
  "verb2_at verb s = do {
     r1 \<leftarrow> lit (verb @ ''('') s;
     (g1, r2) \<leftarrow> class1 is_digit r1;
     r3 \<leftarrow> lit '','' r2;
     (g2, r4) \<leftarrow> class1 is_digit r3;
     _ \<leftarrow> lit '')'' r4;
     Some g1 }"

definition verb1_at :: "string \<Rightarrow> string \<Rightarrow> string option" where
  "verb1_at verb s = do {
     r1 \<leftarrow> lit (verb @ ''('') s;
     (g1, r2) \<leftarrow> class1 is_digit r1;
     _ \<leftarrow> lit '')'' r2;
     Some g1 }"

definition match_nhb :: "string \<Rightarrow> string option" where
  "match_nhb data = leftmost (verb2_at ''nhb'') data"

definition match_rfid_match :: "string \<Rightarrow> string option" where
  "match_rfid_match data = leftmost (verb2_at ''rfid_match'') data"

definition match_rfid_alarm :: "string \<Rightarrow> string option" where
  "match_rfid_alarm data = leftmost (verb1_at ''rfid_alarm'') data"

section \<open>The refill supervisor (FuelStateMachine)\<close>

datatype state =
    REFILL_OP_IDLE
  | REFILL_OP_ERROR
  | REFILL_OP_START
  | REFILL_GET_FIRST_RFID
  | REFILL_WAIT_FOR_DRF_SUBMIT
  | REFILL_READ_FIRST_METER
  | REFILL_WAIT_FIRST_RFID_MATCH
  | REFILL_PROGRESS
  | REFILL_INTERRUPT
  | REFILL_LAST_METER_READ
  | REFILL_WAIT_METER_STABILITY
  | REFILL_WAIT_APP_INFORM
  | REFILL_FORCE_STOP

text \<open>The \<^verbatim>\<open>transitionDetails\<close> object of \<^verbatim>\<open>transition\<close> (\<^verbatim>\<open>from\<close>, \<^verbatim>\<open>to\<close>, \<^verbatim>\<open>reason\<close>,
  \<^verbatim>\<open>data\<close>, \<^verbatim>\<open>timestamp\<close>).\<close>

record transitionDetails =
  td_from :: state
  td_to :: state
  td_reason :: string
  td_data :: jsobj
  td_timestamp :: int

text \<open>What the machine emits, in order: \<^verbatim>\<open>emit('stateChange', transitionDetails)\<close> and the
  other events with their payload object.\<close>

datatype event = StateChange transitionDetails | Emitted string jsobj

text \<open>
  The transaction store.  \<^verbatim>\<open>DatabaseService\<close> only checks that it is initialised (it throws
  otherwise) and logs the call, so the store is the list of the calls it accepted with their
  arguments.
\<close>

datatype db_call =
    AddTransaction jsobj
  | UpdateTransactionLiters jsval jsval
  | AddLitersDispensed rat
  | ClearIncompleteTransaction
  | DeleteTransaction jsval

record database =
  db_initialized :: bool
  db_calls :: "db_call list"

text \<open>
  The fields of the class that the modelled methods read or write.  \<^verbatim>\<open>null\<close> is \<open>None\<close>;
  \<^verbatim>\<open>stateHistory\<close> is \<^verbatim>\<open>undefined\<close> (\<open>None\<close>) until the first transition.  \<open>fleetData\<close> is the
  vehicle list \<^verbatim>\<open>initialize\<close> fetched from the directory.  \<open>uartWritable\<close> tells whether
  \<^verbatim>\<open>uart.sendCommand(cmd, false)\<close> resolves (it rejects when the port is not initialised or the
  write fails), \<open>uartWrites\<close> lists the commands written.  Logger output is left out.
\<close>

record fsm =
  currentState :: state
  previousState :: "state option"
  stateData :: jsobj
  stateTimestamp :: int
  stateHistory :: "transitionDetails list option"
  emitted :: "event list"
  meterReading :: meter
  currentTransaction :: "jsobj option"
  vehicle :: "jsobj option"
  fleetData :: "jsobj list"
  lastHeartbeatTime :: int
  lastNozzleHeartbeatTime :: int
  lastAppCommTime :: int
  requestStartTime :: "int option"
  retryCount :: int
  nozzleId :: string
  stopRefill :: bool
  appInformed :: bool
  rfidContSent :: bool
  rfidInContact :: bool
  rfidAlarmReceived :: bool
  messageToApp :: string
  refillEndReason :: string
  dbIdToSync :: int
  lastUartResponse :: "string option"
  lastRfidResponse :: "string option"
  lastMeterResponse :: "string option"
  lastAlarmResponse :: "string option"
  lastRfidMatchTime :: "int option"
  db :: database
  uartWritable :: bool
  uartWrites :: "string list"

definition LITER_SAVE_INTERVAL :: rat where
  "LITER_SAVE_INTERVAL = 1"

text \<open>
  \<^verbatim>\<open>transition(newState, data = {}, reason)\<close>.  An argument that is not passed is \<open>None\<close>;
  \<^verbatim>\<open>!reason\<close> holds for \<^verbatim>\<open>undefined\<close> and for the empty string.
\<close>

definition transition :: "fsm \<Rightarrow> state \<Rightarrow> jsobj option \<Rightarrow> string option \<Rightarrow> int \<Rightarrow> fsm" where
  "transition s newState data reason now =
     (let reason' = (case reason of None \<Rightarrow> ''No reason provided''
                     | Some r \<Rightarrow> if r = [] then ''No reason provided'' else r);
          data' = (case data of None \<Rightarrow> [] | Some d \<Rightarrow> d);
          s1 = s\<lparr>previousState := Some (currentState s), currentState := newState,
                 stateData := data', stateTimestamp := now\<rparr>;
          transitionDetails = \<lparr>td_from = currentState s, td_to = currentState s1,
                 td_reason = reason', td_data = stateData s1, td_timestamp = stateTimestamp s1\<rparr>;
          s2 = s1\<lparr>stateHistory :=
                 Some ((case stateHistory s1 of None \<Rightarrow> [] | Some h \<Rightarrow> h) @ [transitionDetails])\<rparr>
      in s2\<lparr>emitted := emitted s2 @ [StateChange transitionDetails]\<rparr>)"

text \<open>The \<^verbatim>\<open>allowedTransitions\<close> arrays of \<^verbatim>\<open>STATE_DEFINITIONS\<close>, which
  \<^verbatim>\<open>validateStateTransition\<close> consults.  \<^verbatim>\<open>transition\<close> calls neither.\<close>

fun allowedTransitions :: "state \<Rightarrow> state list" where
  "allowedTransitions REFILL_OP_IDLE = [REFILL_OP_ERROR, REFILL_OP_START]"
| "allowedTransitions REFILL_OP_ERROR = [REFILL_OP_IDLE]"
| "allowedTransitions REFILL_OP_START = [REFILL_GET_FIRST_RFID, REFILL_OP_ERROR]"
| "allowedTransitions REFILL_GET_FIRST_RFID =
     [REFILL_WAIT_FOR_DRF_SUBMIT, REFILL_OP_IDLE, REFILL_OP_ERROR]"
| "allowedTransitions REFILL_WAIT_FOR_DRF_SUBMIT =
     [REFILL_READ_FIRST_METER, REFILL_OP_IDLE, REFILL_OP_ERROR]"
| "allowedTransitions REFILL_READ_FIRST_METER =
     [REFILL_WAIT_FIRST_RFID_MATCH, REFILL_OP_IDLE, REFILL_OP_ERROR]"
| "allowedTransitions REFILL_WAIT_FIRST_RFID_MATCH =
     [REFILL_PROGRESS, REFILL_WAIT_APP_INFORM, REFILL_OP_IDLE, REFILL_OP_ERROR]"
| "allowedTransitions REFILL_PROGRESS =
     [REFILL_INTERRUPT, REFILL_LAST_METER_READ, REFILL_OP_ERROR]"
| "allowedTransitions REFILL_INTERRUPT =
     [REFILL_PROGRESS, REFILL_LAST_METER_READ, REFILL_OP_ERROR]"
| "allowedTransitions REFILL_LAST_METER_READ =
     [REFILL_WAIT_METER_STABILITY, REFILL_WAIT_APP_INFORM, REFILL_OP_ERROR]"
| "allowedTransitions REFILL_WAIT_METER_STABILITY = [REFILL_LAST_METER_READ, REFILL_OP_ERROR]"
| "allowedTransitions REFILL_WAIT_APP_INFORM = [REFILL_OP_IDLE, REFILL_OP_ERROR]"
| "allowedTransitions REFILL_FORCE_STOP =
     [REFILL_LAST_METER_READ, REFILL_WAIT_APP_INFORM, REFILL_OP_ERROR]"

definition resetStateMachine :: "fsm \<Rightarrow> int \<Rightarrow> fsm" where
  "resetStateMachine s now =
     s\<lparr>meterReading := meter_init,
       currentTransaction := None, vehicle := None,
       stopRefill := False, appInformed := False, rfidContSent := False,
       rfidInContact := False, rfidAlarmReceived := False,
       lastRfidResponse := None, lastMeterResponse := None, lastAlarmResponse := None,
       requestStartTime := None, lastNozzleHeartbeatTime := now, retryCount := 0,
       lastRfidMatchTime := None,
       messageToApp := [], refillEndReason := []\<rparr>"

definition transitionToIdle :: "fsm \<Rightarrow> string \<Rightarrow> jsobj option \<Rightarrow> int \<Rightarrow> fsm" where
  "transitionToIdle s reason data now =
     transition (resetStateMachine s now) REFILL_OP_IDLE
       (Some (case data of None \<Rightarrow> [] | Some d \<Rightarrow> d)) (Some reason) now"

text \<open>The transaction object \<^verbatim>\<open>initializeRefill\<close> creates; \<open>createDate\<close> is
  \<^verbatim>\<open>new Date().toISOString()\<close>.\<close>

definition new_transaction :: "string \<Rightarrow> jsobj" where
  "new_transaction createDate =
     [(''id'', JNull), (''tagNumber'', JNull), (''pumpId'', JNull), (''operatorId'', JNull),
      (''createDate'', JString createDate), (''createUser'', JNull),
      (''dispensedLiter'', JString ''0''), (''currentMachineHours'', JNumber (Finite 0)),
      (''lastSavedLiters'', JNumber (Finite 0)), (''synced'', JBool False)]"

definition initializeRefill :: "fsm \<Rightarrow> string \<Rightarrow> int \<Rightarrow> fsm" where
  "initializeRefill s createDate now =
     s\<lparr>meterReading := meter_init,
       currentTransaction := Some (new_transaction createDate),
       vehicle := None,
       stopRefill := False, appInformed := False, rfidContSent := False,
       rfidInContact := False, rfidAlarmReceived := False,
       messageToApp := [], refillEndReason := [],
       requestStartTime := None, lastAppCommTime := now, lastNozzleHeartbeatTime := now,
       lastHeartbeatTime := now,
       lastRfidResponse := None, lastMeterResponse := None, lastAlarmResponse := None,
       lastRfidMatchTime := None\<rparr>"

text \<open>The constructor: the machine at time \<open>now\<close>, before any transition.  The services it
  is given are an initialised store with no call yet and a port that accepts writes; the
  directory listing is \<open>fleet\<close>.\<close>

definition new_machine :: "jsobj list \<Rightarrow> int \<Rightarrow> fsm" where
  "new_machine fleet now =
     \<lparr> currentState = REFILL_OP_IDLE, previousState = None, stateData = [],
       stateTimestamp = now, stateHistory = None, emitted = [],
       meterReading = meter_init, currentTransaction = None, vehicle = None,
       fleetData = fleet,
       lastHeartbeatTime = now, lastNozzleHeartbeatTime = now, lastAppCommTime = now,
       requestStartTime = None, retryCount = 0, nozzleId = ''0076'',
       stopRefill = False, appInformed = False, rfidContSent = False,
       rfidInContact = False, rfidAlarmReceived = False,
       messageToApp = [], refillEndReason = [], dbIdToSync = - 1,
       lastUartResponse = None, lastRfidResponse = None, lastMeterResponse = None,
       lastAlarmResponse = None, lastRfidMatchTime = None,
       db = \<lparr> db_initialized = True, db_calls = [] \<rparr>,
       uartWritable = True, uartWrites = [] \<rparr>"

subsection \<open>Store operations of the machine\<close>

text \<open>
  Each wrapper calls the store inside \<^verbatim>\<open>try\<close> and returns \<^verbatim>\<open>false\<close> when anything throws: the
  store when it is not initialised, or the property read on a \<^verbatim>\<open>null\<close> transaction.
\<close>

definition db_accept :: "db_call \<Rightarrow> fsm \<Rightarrow> bool \<times> fsm" where
  "db_accept c s =
     (if db_initialized (db s)
      then (True, s\<lparr>db := (db s)\<lparr>db_calls := db_calls (db s) @ [c]\<rparr>\<rparr>)
      else (False, s))"

text \<open>\<^verbatim>\<open>db.updateTransactionLiters(this.currentTransaction.id, this.currentTransaction.DispensedLiter)\<close>.\<close>

definition updateTransactionLiters :: "fsm \<Rightarrow> bool \<times> fsm" where
  "updateTransactionLiters s =
     (case currentTransaction s of
        None \<Rightarrow> (False, s)
      | Some tx \<Rightarrow>
          db_accept (UpdateTransactionLiters (get_prop tx ''id'') (get_prop tx ''DispensedLiter'')) s)"

definition addLitersDispensed :: "fsm \<Rightarrow> rat \<Rightarrow> bool \<times> fsm" where
  "addLitersDispensed s liters = db_accept (AddLitersDispensed liters) s"

definition deleteTransaction :: "fsm \<Rightarrow> bool \<times> fsm" where
  "deleteTransaction s =
     (case currentTransaction s of
        None \<Rightarrow> (False, s)
      | Some tx \<Rightarrow> db_accept (DeleteTransaction (get_prop tx ''id'')) s)"

definition clearIncompleteTransaction :: "fsm \<Rightarrow> bool \<times> fsm" where
  "clearIncompleteTransaction s = db_accept ClearIncompleteTransaction s"

subsection \<open>Finalize\<close>

text \<open>
  \<^verbatim>\<open>finalizeTransaction(finalReading)\<close>.  The result is the machine and, when the method throws,
  the error: a \<^verbatim>\<open>TypeError\<close> for the property write on a \<^verbatim>\<open>null\<close> transaction or for
  \<^verbatim>\<open>this.vehicle.FleetNumber\<close> on a \<^verbatim>\<open>null\<close> vehicle.  \<^verbatim>\<open>updateVehicleHours\<close> returns
  \<^verbatim>\<open>true\<close> and changes nothing.
\<close>

definition finalize_tail :: "fsm \<Rightarrow> rat \<Rightarrow> int \<Rightarrow> fsm" where
  "finalize_tail s finalReading now =
     transition (s\<lparr>appInformed := False, requestStartTime := Some now, retryCount := 1\<rparr>)
       REFILL_WAIT_APP_INFORM
       (Some [(''finalReading'', JNumber (Finite finalReading)),
              (''transactionCompleted'', JBool (finalReading > 0))])
       (Some ''Transaction finalized, waiting for app to fetch data'') now"

definition finalizeTransaction :: "fsm \<Rightarrow> rat \<Rightarrow> int \<Rightarrow> string option \<times> fsm" where
  "finalizeTransaction s finalReading now =
     (if finalReading > 0 then
        (let s1 = s\<lparr>meterReading := (meterReading s)\<lparr>current := finalReading\<rparr>\<rparr> in
         case currentTransaction s1 of
           None \<Rightarrow> (Some ''TypeError'', s1)
         | Some tx \<Rightarrow>
             (let s2 = s1\<lparr>currentTransaction :=
                         Some (set_prop ''dispensedLiter'' (JNumberToString finalReading) tx)\<rparr> in
              case vehicle s2 of
                None \<Rightarrow> (Some ''TypeError'', s2)
              | Some v \<Rightarrow>
                  (let s3 = snd (updateTransactionLiters s2);
                       s4 = snd (addLitersDispensed s3 finalReading);
                       s5 = snd (clearIncompleteTransaction s4);
                       s6 = s5\<lparr>dbIdToSync := - 1\<rparr>
                   in (None, finalize_tail s6 finalReading now))))
      else
        (case vehicle s of
           None \<Rightarrow> (Some ''TypeError'', s)
         | Some v \<Rightarrow>
             (let s1 = snd (deleteTransaction s);
                  s2 = snd (clearIncompleteTransaction s1)
              in (None, finalize_tail s2 finalReading now))))"

subsection \<open>Inbound frames\<close>

text \<open>
  \<^verbatim>\<open>processRfidResponse(rfidInfo)\<close>.  The method has no \<^verbatim>\<open>await\<close>, so it runs to its end inside
  \<^verbatim>\<open>handleUartResponse\<close>.  \<open>rfidInfo.rfidTag\<close> is a string, for which \<^verbatim>\<open>===\<close> is equality.
\<close>

definition processRfidResponse :: "fsm \<Rightarrow> jsobj \<Rightarrow> int \<Rightarrow> fsm" where
  "processRfidResponse s rfidInfo now =
     (if get_prop rfidInfo ''rfidTag'' = JString ''-'' then s
      else
        case find (\<lambda>v. get_prop v ''TagNumber'' = get_prop rfidInfo ''rfidTag'') (fleetData s) of
          Some v \<Rightarrow>
            transition
              (s\<lparr>vehicle := Some v,
                 currentTransaction := Some (spread (currentTransaction s)
                    [(''tagNumber'', get_prop rfidInfo ''rfidTag''),
                     (''fleetNumber'', get_prop v ''FleetNumber''),
                     (''tankCapacity'', get_prop v ''VehicleTankCapacity'')])\<rparr>)
              REFILL_WAIT_FOR_DRF_SUBMIT
              (Some [(''vehicle'', JObject v), (''rfidInfo'', JObject rfidInfo)])
              (Some ''Valid RFID tag detected and validated against fleet database'') now
        | None \<Rightarrow>
            transition s REFILL_OP_IDLE (Some [(''rfidInfo'', JObject rfidInfo)])
              (Some ''RFID tag validation failed - tag not found in fleet database'') now)"

text \<open>The \<^verbatim>\<open>meter_read\<close> branch of \<^verbatim>\<open>handleUartResponse\<close>, for a parsed value.\<close>

definition meter_read_branch :: "fsm \<Rightarrow> rat \<Rightarrow> int \<Rightarrow> fsm" where
  "meter_read_branch s meterValue now =
     (let (isStable, m) = addMeterReading (meterReading s) meterValue now;
          s1 = s\<lparr>meterReading := m\<rparr>;
          s2 = (case currentTransaction s1 of
                  None \<Rightarrow> s1
                | Some tx \<Rightarrow>
                    (let s1a = s1\<lparr>currentTransaction :=
                            Some (set_prop ''dispensedLiter''
                                    (JNumberToString (current (meterReading s1))) tx)\<rparr>
                     in if double_sub (current (meterReading s1a)) (lastSaved (meterReading s1a))
                             \<ge> LITER_SAVE_INTERVAL
                        then (let s1b = snd (updateTransactionLiters s1a)
                              in s1b\<lparr>meterReading :=
                                   (meterReading s1b)\<lparr>lastSaved := current (meterReading s1b)\<rparr>\<rparr>)
                        else s1a))
      in s2\<lparr>emitted := emitted s2 @
            [Emitted ''meterUpdate''
               [(''value'', JNumber (Finite meterValue)), (''isStable'', JBool isStable),
                (''timestamp'', JNumber (Finite (of_int now)))]]\<rparr>)"

text \<open>
  \<^verbatim>\<open>handleUartResponse(data)\<close>: the branches in the order of the source, each ending in
  \<^verbatim>\<open>return\<close>.  The result carries the error when the method throws (the \<^verbatim>\<open>cbhb\<close> reply could
  not be sent).
\<close>

definition handleUartResponse :: "fsm \<Rightarrow> string \<Rightarrow> int \<Rightarrow> string option \<times> fsm" where
  "handleUartResponse s data now =
     (let s0 = s\<lparr>lastUartResponse := Some data\<rparr> in
      if includes_str data ''meter_read'' then
        (case parseMeterResponse data of
           Some meterValue \<Rightarrow> (None, meter_read_branch s0 meterValue now)
         | None \<Rightarrow> (None, s0))
      else if includes_str data ''heartbeat'' then
        (None, s0\<lparr>lastHeartbeatTime := now\<rparr>)
      else if includes_str data ''nhb'' then
        (case match_nhb data of
           Some g1 \<Rightarrow>
             if g1 = nozzleId s0 then
               (let s1 = s0\<lparr>lastNozzleHeartbeatTime := now\<rparr> in
                if uartWritable s1
                then (None, s1\<lparr>uartWrites := uartWrites s1 @ [''cbhb('' @ nozzleId s1 @ '')'']\<rparr>)
                else (Some ''Failed to send CBHB'', s1))
             else (None, s0)
         | None \<Rightarrow> (None, s0))
      else if includes_str data ''rfid_match'' then
        (case match_rfid_match data of
           Some g1 \<Rightarrow>
             if g1 = nozzleId s0 then
               (let s1 = s0\<lparr>lastRfidMatchTime := Some now, lastNozzleHeartbeatTime := now,
                             rfidInContact := True\<rparr>
                in (None, s1\<lparr>emitted := emitted s1 @
                      [Emitted ''rfidMatch''
                         [(''nozzleId'', JString g1),
                          (''timestamp'', JNumber (Finite (of_int now)))]]\<rparr>))
             else (None, s0)
         | None \<Rightarrow> (None, s0))
      else if includes_str data ''rfid_alarm'' then
        (case match_rfid_alarm data of
           Some g1 \<Rightarrow>
             if g1 = nozzleId s0 then
               (let s1 = s0\<lparr>rfidInContact := False, rfidAlarmReceived := True,
                             lastNozzleHeartbeatTime := now\<rparr>;
                    s2 = (if currentState s1 = REFILL_PROGRESS
                          then transition s1 REFILL_INTERRUPT
                                 (Some [(''reason'', JString ''RFID contact lost''),
                                        (''lastReading'',
                                           JNumber (Finite (current (meterReading s1))))])
                                 (Some ''RFID alarm received - tag contact lost'') now
                          else s1)
                in (None, s2\<lparr>emitted := emitted s2 @
                      [Emitted ''rfidAlarm''
                         [(''nozzleId'', JString g1),
                          (''lastReading'', JNumber (Finite (current (meterReading s2)))),
                          (''timestamp'', JNumber (Finite (of_int now)))]]\<rparr>))
             else (None, s0)
         | None \<Rightarrow> (None, s0))
      else if includes_str data ''rfid_get'' then
        (let rfidInfo = parseRfidResponse data;
             s1 = s0\<lparr>lastNozzleHeartbeatTime := now\<rparr>
         in case rfidInfo of
              Some info \<Rightarrow>
                (let s2 = (if currentState s1 = REFILL_GET_FIRST_RFID
                           then processRfidResponse s1 info now else s1)
                 in (None, s2\<lparr>emitted := emitted s2 @
                       [Emitted ''rfidRead''
                          (spread (Some info)
                             [(''timestamp'', JNumber (Finite (of_int now)))])]\<rparr>))
            | None \<Rightarrow> (None, s1))
      else (None, s0))"

section \<open>The nozzle port (UartService)\<close>

text \<open>
  An entry of \<^verbatim>\<open>pendingCommands\<close>.  \<^verbatim>\<open>resolve\<close> and \<^verbatim>\<open>reject\<close> settle the promise
  \<^verbatim>\<open>sendCommand\<close> returned, named here by a number; \<^verbatim>\<open>timeout\<close> is the handle of the deadline
  timer.
\<close>

record pendingCommand =
  pc_promise :: nat
  pc_timeout :: nat
  originalCommand :: string
  pc_timestamp :: int

text \<open>What the port does to the outside, in order.\<close>

datatype port_effect =
    EmitData string
  | EmitError string
  | Write string
  | SetTimeout nat
  | ClearTimeout nat
  | Resolve nat jsval
  | Reject nat string

text \<open>
  \<^verbatim>\<open>pendingCommands\<close> is a \<^verbatim>\<open>Map\<close>: entries in insertion order, \<^verbatim>\<open>set\<close> on a key that is there
  replaces the value in place.  The key \<^verbatim>\<open>Date.now().toString()\<close> is modelled by the number.
  \<open>timers\<close> are the armed deadline timers with the key and the promise their callback closes
  over.  \<^verbatim>\<open>emit\<close> is recorded in \<open>effects\<close>.  \<open>errorListeners\<close> counts the listeners
  attached to the port for \<^verbatim>\<open>error\<close>: the port is an \<^verbatim>\<open>EventEmitter\<close>, whose
  \<^verbatim>\<open>emit('error', e)\<close> throws \<open>e\<close> when there is none.  The constructor attaches none, and
  the application attaches a listener for \<^verbatim>\<open>data\<close> only.
\<close>

record uart =
  initialized :: bool
  lastResponse :: "string option"
  pendingCommands :: "(int \<times> pendingCommand) list"
  messageTimeout :: int
  noResponseCommands :: "string list"
  timers :: "(nat \<times> int \<times> nat) list"
  nextPromise :: nat
  nextTimer :: nat
  effects :: "port_effect list"
  errorListeners :: nat

definition new_uart :: uart where
  "new_uart = \<lparr> initialized = False, lastResponse = None, pendingCommands = [],
     messageTimeout = 5000,
     noResponseCommands = [''pair_nozzle'', ''set_solenoid'', ''meter_reset''],
     timers = [], nextPromise = 0, nextTimer = 0, effects = [], errorListeners = 0 \<rparr>"

definition effect :: "port_effect \<Rightarrow> uart \<Rightarrow> uart" where
  "effect e u = u\<lparr>effects := effects u @ [e]\<rparr>"

definition clearTimeout :: "nat \<Rightarrow> uart \<Rightarrow> uart" where
  "clearTimeout t u = effect (ClearTimeout t) (u\<lparr>timers := AList.delete t (timers u)\<rparr>)"

definition pending_delete :: "int \<Rightarrow> uart \<Rightarrow> uart" where
  "pending_delete commandId u = u\<lparr>pendingCommands := AList.delete commandId (pendingCommands u)\<rparr>"

definition shouldExpectResponse :: "uart \<Rightarrow> string \<Rightarrow> bool" where
  "shouldExpectResponse u command = (\<not> list_ex (\<lambda>cmd. startsWith command cmd) (noResponseCommands u))"




text \<open>The loop of \<^verbatim>\<open>handleError\<close>: every entry is visited once; deleting the entry just
  visited does not disturb the iteration of a \<^verbatim>\<open>Map\<close>.\<close>

fun reject_all :: "string \<Rightarrow> (int \<times> pendingCommand) list \<Rightarrow> uart \<Rightarrow> uart" where
  "reject_all error [] u = u"
| "reject_all error ((commandId, command) # rest) u =
     reject_all error rest
       (pending_delete commandId
          (effect (Reject (pc_promise command) error) (clearTimeout (pc_timeout command) u)))"

text \<open>\<^verbatim>\<open>handleError(error)\<close>: \<^verbatim>\<open>this.emit('error', error)\<close> comes first and throws when the
  port has no listener for \<^verbatim>\<open>error\<close>; the result then carries the error and the port is as
  it was.\<close>

definition handleError :: "uart \<Rightarrow> string \<Rightarrow> string option \<times> uart" where
  "handleError u error =
     (if errorListeners u = 0 then (Some error, u)
      else (let u1 = effect (EmitError error) u
            in (None, reject_all error (pendingCommands u1) u1)))"

text \<open>
  \<^verbatim>\<open>sendCommand(command, expectResponse = null)\<close> at time \<open>now\<close>; \<open>writeError\<close> is the error the
  write callback reports, if any.  The callback is taken to run before any other event.
\<close>

definition sendCommand :: "uart \<Rightarrow> string \<Rightarrow> bool option \<Rightarrow> int \<Rightarrow> string option \<Rightarrow> uart" where
  "sendCommand u command expectResponse now writeError =
     (let p = nextPromise u; u0 = u\<lparr>nextPromise := Suc p\<rparr> in
      if \<not> initialized u0 then effect (Reject p ''UART service not initialized'') u0
      else
        let expect = (case expectResponse of None \<Rightarrow> shouldExpectResponse u0 command | Some b \<Rightarrow> b);
            formattedCommand = (if command \<noteq> [] \<and> last command = CHR 0x0A then command
                                else command @ [CHR 0x0A]);
            commandId = now;
            u1 = (if expect then
                    (let t = nextTimer u0 in
                     effect (SetTimeout t)
                       (u0\<lparr>nextTimer := Suc t,
                           timers := AList.update t (commandId, p) (timers u0),
                           pendingCommands := AList.update commandId
                             \<lparr>pc_promise = p, pc_timeout = t, originalCommand = command,
                              pc_timestamp = now\<rparr> (pendingCommands u0)\<rparr>))
                  else u0);
            u2 = effect (Write formattedCommand) u1
        in case writeError of
             Some err \<Rightarrow>
               effect (Reject p err)
                 (if expect then
                    (case map_of (pendingCommands u2) commandId of
                       Some c \<Rightarrow> pending_delete commandId (clearTimeout (pc_timeout c) u2)
                     | None \<Rightarrow> u2)
                  else u2)
           | None \<Rightarrow> if \<not> expect then effect (Resolve p (JBool True)) u2 else u2)"

text \<open>The deadline callback of timer \<open>t\<close>: it looks the key up again and rejects its own
  promise.\<close>

definition timer_fires :: "uart \<Rightarrow> nat \<Rightarrow> uart" where
  "timer_fires u t =
     (case map_of (timers u) t of
        None \<Rightarrow> u
      | Some (commandId, p) \<Rightarrow>
          (let u1 = u\<lparr>timers := AList.delete t (timers u)\<rparr> in
           case map_of (pendingCommands u1) commandId of
             Some c \<Rightarrow> effect (Reject p ''UART response timeout'') (pending_delete commandId u1)
           | None \<Rightarrow> u1))"

section \<open>The operator interface (ApiRoutes)\<close>

text \<open>
  A scalar field of a JSON request body as \<^verbatim>\<open>express.json()\<close> delivers it: absent
  (\<^verbatim>\<open>undefined\<close>), \<^verbatim>\<open>null\<close>, a boolean, a number or a string.  Arrays and objects are left out.
\<close>

datatype body_value = Absent | BNull | BBool bool | BNumber jsnum | BString string

definition is_js_space :: "char \<Rightarrow> bool" where
  "is_js_space c = (c \<in> set [CHR 0x09, CHR 0x0A, CHR 0x0B, CHR 0x0C, CHR 0x0D, CHR 0x20])"

text \<open>
  \<^verbatim>\<open>parseInt(s)\<close> with no radix: leading white space (the ASCII part of it), a sign, the
  prefix \<^verbatim>\<open>0x\<close> for radix 16, then the longest run of digits; \<^verbatim>\<open>NaN\<close> when there is none.
\<close>

definition parseInt :: "string \<Rightarrow> jsnum" where
  "parseInt str =
     (let s1 = dropWhile is_js_space str;
          (sign, s2) = (case s1 of
                          c # r \<Rightarrow> if c = CHR ''-'' then (- 1 :: int, r)
                                   else if c = CHR ''+'' then (1, r) else (1, s1)
                        | [] \<Rightarrow> (1, s1));
          (radix, s3) = (if startsWith s2 ''0x'' \<or> startsWith s2 ''0X''
                         then (16 :: nat, drop 2 s2) else (10, s2));
          ds = takeWhile (if radix = 16 then is_hex else is_digit) s3
      in if ds = [] then NaN else number_of_int (sign * int (digits_value radix ds)))"

text \<open>
  \<^verbatim>\<open>kilometers\<close> after \<^verbatim>\<open>if (typeof kilometers === 'string') kilometers = parseInt(kilometers)\<close>,
  as the value kept in the transition data and as the number that \<^verbatim>\<open>isNaN\<close>,
  \<^verbatim>\<open>isFinite\<close> and \<^verbatim>\<open>> 1000\<close> see (\<^verbatim>\<open>ToNumber\<close>: \<^verbatim>\<open>undefined\<close> is \<^verbatim>\<open>NaN\<close>, \<^verbatim>\<open>null\<close> is 0,
  \<^verbatim>\<open>true\<close> is 1).
\<close>

definition kilometers_value :: "body_value \<Rightarrow> jsval" where
  "kilometers_value km =
     (case km of
        BString str \<Rightarrow> JNumber (parseInt str)
      | Absent \<Rightarrow> JUndefined | BNull \<Rightarrow> JNull | BBool b \<Rightarrow> JBool b | BNumber n \<Rightarrow> JNumber n)"

definition kilometers_number :: "body_value \<Rightarrow> jsnum" where
  "kilometers_number km =
     (case km of
        BString str \<Rightarrow> parseInt str
      | Absent \<Rightarrow> NaN | BNull \<Rightarrow> Finite 0 | BBool b \<Rightarrow> Finite (if b then 1 else 0)
      | BNumber n \<Rightarrow> n)"

definition isNaN :: "jsnum \<Rightarrow> bool" where
  "isNaN n = (n = NaN)"

definition isFinite :: "jsnum \<Rightarrow> bool" where
  "isFinite n = (case n of Finite r \<Rightarrow> True | _ \<Rightarrow> False)"

text \<open>\<^verbatim>\<open>n > 1000\<close>.\<close>

definition gt_1000 :: "jsnum \<Rightarrow> bool" where
  "gt_1000 n = (case n of Finite r \<Rightarrow> r > 1000 | PosInfinity \<Rightarrow> True | _ \<Rightarrow> False)"

text \<open>A response: the status code and the fields of the body that tell the outcomes apart
  (the state report of a success body is left out).\<close>

datatype http_response = Response nat jsobj

fun status :: "http_response \<Rightarrow> nat" where
  "status (Response code body) = code"

text \<open>\<^verbatim>\<open>POST /api/fill\<close>.\<close>

definition fill :: "fsm \<Rightarrow> int \<Rightarrow> http_response \<times> fsm" where
  "fill s now =
     (if currentState s \<noteq> REFILL_OP_IDLE
      then (Response 400 [(''success'', JBool False),
                          (''error'', JString ''Cannot start fill operation - system busy'')], s)
      else (Response 200 [(''success'', JBool True), (''message'', JString ''Fill operation started'')],
            transition s REFILL_OP_START
              (Some [(''requestTime'', JNumber (Finite (of_int now)))])
              (Some ''Fill operation initiated via API request'') now))"

text \<open>The checks that \<^verbatim>\<open>POST /api/drf-submit\<close> and the \<^verbatim>\<open>refill_drf\<close> case of
  \<^verbatim>\<open>POST /api/operation\<close> share, in the order of the source; \<open>ok\<close> is the success body.\<close>

definition drf_checks :: "jsobj \<Rightarrow> fsm \<Rightarrow> body_value \<Rightarrow> int \<Rightarrow> http_response \<times> fsm" where
  "drf_checks ok s kilometers now =
     (let k = kilometers_number kilometers in
      if isNaN k \<or> \<not> isFinite k
      then (Response 400 [(''success'', JBool False), (''error'', JString ''Invalid kilometers value'')], s)
      else if gt_1000 k
      then (Response 400 [(''success'', JBool False), (''error'', JString ''Kilometer reading too high'')], s)
      else if currentState s \<noteq> REFILL_WAIT_FOR_DRF_SUBMIT
      then (Response 400 [(''success'', JBool False), (''error'', JString ''Invalid state for DRF submit'')], s)
      else (Response 200 ok,
            transition s REFILL_READ_FIRST_METER
              (Some [(''kilometers'', kilometers_value kilometers)]) None now))"

text \<open>\<^verbatim>\<open>POST /api/drf-submit\<close> with \<^verbatim>\<open>req.body.kilometers\<close>.\<close>

definition drf_submit :: "fsm \<Rightarrow> body_value \<Rightarrow> int \<Rightarrow> http_response \<times> fsm" where
  "drf_submit s kilometers now =
     drf_checks [(''success'', JBool True), (''message'', JString ''DRF submitted successfully'')]
       s kilometers now"

text \<open>
  \<^verbatim>\<open>POST /api/operation\<close> with \<^verbatim>\<open>request\<close>, \<^verbatim>\<open>token\<close> and \<^verbatim>\<open>refill_op_workinghours\<close> of the
  body; \<open>activeTokens\<close> maps the tokens \<^verbatim>\<open>/api/auth\<close> minted to their user.  \<^verbatim>\<open>res.json\<close> answers
  with status 200.  In the \<^verbatim>\<open>vehicle_info\<close> case a \<^verbatim>\<open>null\<close> vehicle makes the property read
  throw, and the \<^verbatim>\<open>catch\<close> answers \<^verbatim>\<open>invalid\<close>.
\<close>

definition operation ::
  "(string \<times> string) list \<Rightarrow> fsm \<Rightarrow> string \<Rightarrow> string \<Rightarrow> body_value \<Rightarrow> int \<Rightarrow> http_response \<times> fsm"
where
  "operation activeTokens s request token refill_op_workinghours now =
     (if map_of activeTokens token = None
      then (Response 200 [(''response'', JString ''invalid_token'')], s)
      else if request = ''refill_req'' then
        (if currentState s \<noteq> REFILL_OP_IDLE
         then (Response 200 [(''response'', JString ''invalid''), (''message'', JString ''System busy'')], s)
         else (Response 200 [(''response'', JString ''refill_drf'')],
               transition s REFILL_OP_START
                 (Some [(''requestTime'', JNumber (Finite (of_int now)))])
                 (Some ''Fill operation initiated via API request'') now))
      else if request = ''refill_drf'' then
        drf_checks [(''response'', JString ''refill_started'')] s refill_op_workinghours now
      else if request = ''refill_params'' then
        (if currentState s = REFILL_WAIT_APP_INFORM \<and> refillEndReason s \<noteq> []
            \<and> includes_str (refillEndReason s) ''Max Tank Capacity''
         then (Response 200 [(''response'', JString ''invalid'')],
               transitionToIdle (s\<lparr>appInformed := True\<rparr>)
                 ''Tank capacity reached - app informed'' None now)
         else (Response 200
                 [(''response'', JString ''refill_params''),
                  (''refill_op_liters'', JNumberToString (current (meterReading s)))], s))
      else if request = ''refill_finish'' then
        (let s1 = transition s REFILL_FORCE_STOP None None now
         in (Response 200
               [(''response'', JString ''refill_finished''),
                (''refill_op_liters'', JNumberToString (lastStable (meterReading s1)))], s1))
      else if request = ''vehicle_info'' then
        (if currentState s = REFILL_WAIT_FOR_DRF_SUBMIT
         then (case vehicle s of
                 Some v \<Rightarrow> (Response 200 [(''response'', JString ''vehicle_info'')], s)
               | None \<Rightarrow> (Response 200 [(''response'', JString ''invalid'')], s))
         else (Response 200 [(''response'', JString ''tag_waiting'')], s))
      else (Response 200 [(''response'', JString ''invalid'')], s))"

section \<open>The specification's wording, for comparison\<close>

text \<open>
  Section 4.2 of the specification: the current reading is stable iff the most recent \<open>N = 2\<close>
  readings are equal and at least 5000 ms have elapsed since the first reading of that run.
  \<open>spec_run_start v older acc\<close> walks back from the newest reading over the readings equal
  to \<open>v\<close> and gives the arrival time of the oldest of them; \<open>spec_stable\<close> reads a history of
  \<open>(value, arrival time)\<close> pairs, oldest first, at the arrival of its last reading.
\<close>

fun spec_run_start :: "rat \<Rightarrow> (rat \<times> int) list \<Rightarrow> int \<Rightarrow> int" where
  "spec_run_start v [] acc = acc"
| "spec_run_start v ((x, t) # older) acc = (if x = v then spec_run_start v older t else acc)"

definition spec_stable :: "(rat \<times> int) list \<Rightarrow> bool" where
  "spec_stable h =
     (case rev h of
        (v, now) # (u, s) # older \<Rightarrow>
           u = v \<and> now - spec_run_start v ((u, s) # older) now \<ge> 5000
      | _ \<Rightarrow> False)"

section \<open>Example configurations\<close>

text \<open>The open port as the application wires it, with a \<^verbatim>\<open>meter_read()\<close> and an
  \<^verbatim>\<open>rfid_get(0076)\<close> request outstanding.\<close>

definition port_two_pending :: uart where
  "port_two_pending =
     sendCommand
       (sendCommand (new_uart\<lparr>initialized := True\<rparr>) ''meter_read()'' (Some True) 1000 None)
       ''rfid_get(0076)'' (Some True) 1200 None"

text \<open>A port with a listener for \<^verbatim>\<open>error\<close> attached, and two requests sent within the same
  millisecond.\<close>

definition port_same_millisecond :: uart where
  "port_same_millisecond =
     sendCommand
       (sendCommand (new_uart\<lparr>initialized := True, errorListeners := 1\<rparr>)
          ''heartbeat()'' (Some True) 1000 None)
       ''meter_read()'' (Some True) 1000 None"

text \<open>A directory with one vehicle.\<close>

definition fleet_example :: "jsobj list" where
  "fleet_example =
     [[(''TagNumber'', JString ''E200001D8914005717701BFC''),
       (''FleetNumber'', JString ''FL-12''),
       (''VehicleTankCapacity'', JNumber (Finite 100)),
       (''CurrentMachineHours'', JNumber (Finite 250))]]"

text \<open>The machine after \<^verbatim>\<open>POST /api/fill\<close>, as \<^verbatim>\<open>processStartState\<close> leaves it: refill
  initialised, retry budget set, request timer started, state \<^verbatim>\<open>REFILL_GET_FIRST_RFID\<close>.\<close>

definition awaiting_first_rfid :: fsm where
  "awaiting_first_rfid =
     transition
       ((initializeRefill (snd (fill (new_machine fleet_example 0) 0)) ''2025-01-01T00:00:00.000Z'' 0)
          \<lparr>retryCount := 100, requestStartTime := Some 0\<rparr>)
       REFILL_GET_FIRST_RFID (Some [(''maxRetries'', JNumber (Finite 100))])
       (Some ''Starting RFID read sequence'') 0"

text \<open>The same machine after the nozzle's reply with the vehicle's tag.\<close>

definition vehicle_bound :: fsm where
  "vehicle_bound =
     snd (handleUartResponse awaiting_first_rfid
            ''rfid_get(0076,E200001D8914005717701BFC,2013)'' 1000)"

text \<open>That machine after the meter reply \<^verbatim>\<open>meter_read(3.1)\<close>.\<close>

definition after_3_1 :: fsm where
  "after_3_1 = snd (handleUartResponse vehicle_bound ''meter_read(3.1)'' 1500)"

section \<open>Properties of the meter stability filter\<close>

lemma slice_last_two_snoc:
  assumes "xs \<noteq> []"
  shows "slice_last 2 (xs @ [v]) = [last xs, v]"
proof -
  obtain ys y where xs: "xs = ys @ [y]" using assms by (metis rev_exhaust)
  show ?thesis by (simp add: slice_last_def xs)
qed

lemma slice_last_two_tl_snoc:
  assumes "length xs \<ge> 2"
  shows "slice_last 2 (tl (xs @ [v])) = [last xs, v]"
proof -
  obtain x xs' where xs: "xs = x # xs'" using assms by (cases xs) auto
  have ne: "xs' \<noteq> []" using assms xs by auto
  show ?thesis using slice_last_two_snoc[OF ne, of v] ne by (simp add: xs)
qed

text \<open>With a window that is not empty, a reading is reported stable exactly when it repeats
  the previous reading and the timeout has passed since the stored timestamp.\<close>

lemma addMeterReading_report:
  assumes "stabilityThreshold m = 2" and "readings m \<noteq> []"
  shows "fst (addMeterReading m v now) =
           (last (readings m) = v \<and> timeSinceFirst m now \<ge> stabilityTimeoutMs m)"
proof (cases "length (readings m) > 3")
  case True
  then have "length (readings m) \<ge> 2" by simp
  from slice_last_two_tl_snoc[OF this, of v] True assms show ?thesis
    by (auto simp: addMeterReading_def isMeterReadingStable_def Let_def timeSinceFirst_def)
next
  case False
  with slice_last_two_snoc[OF assms(2), of v] assms show ?thesis
    by (auto simp: addMeterReading_def isMeterReadingStable_def Let_def timeSinceFirst_def
        Suc_le_eq)
qed

lemma addMeterReading_first:
  assumes "stabilityThreshold m = 2" and "readings m = []"
  shows "fst (addMeterReading m v now) = False"
  using assms by (simp add: addMeterReading_def isMeterReadingStable_def Let_def)

lemma addMeterReading_fields:
  "stabilityThreshold (snd (addMeterReading m v now)) = stabilityThreshold m"
  "stabilityTimeoutMs (snd (addMeterReading m v now)) = stabilityTimeoutMs m"
  "current (snd (addMeterReading m v now)) = v"
  "lastSaved (snd (addMeterReading m v now)) = lastSaved m"
  "lastStable (snd (addMeterReading m v now)) =
     (if fst (addMeterReading m v now) then v else lastStable m)"
  "stabilityTimestamp (snd (addMeterReading m v now)) =
     (if readings m = [] then Some now else stabilityTimestamp m)"
  by (simp_all add: addMeterReading_def Let_def)

lemma addMeterReading_readings:
  assumes "stabilityThreshold m = 2"
  shows "readings (snd (addMeterReading m v now)) \<noteq> []"
    and "last (readings (snd (addMeterReading m v now))) = v"
  using assms by (auto simp: addMeterReading_def Let_def last_tl)

lemma feed_snoc: "feed m (rs @ [(v, t)]) = addMeterReading (snd (feed m rs)) v t"
  by (simp add: feed_def split: prod.splits)

text \<open>After any non-empty run from the initial filter the timestamp is still the arrival
  of the very first reading, and the window ends with the last reading.\<close>

lemma feed_invariant:
  assumes "h \<noteq> []"
  shows "stabilityThreshold (snd (feed meter_init h)) = 2
       \<and> stabilityTimeoutMs (snd (feed meter_init h)) = 5000
       \<and> readings (snd (feed meter_init h)) \<noteq> []
       \<and> last (readings (snd (feed meter_init h))) = fst (last h)
       \<and> current (snd (feed meter_init h)) = fst (last h)
       \<and> stabilityTimestamp (snd (feed meter_init h)) = Some (snd (hd h))"
  using assms
proof (induction h rule: rev_induct)
  case Nil
  then show ?case by simp
next
  case (snoc x h)
  obtain v t where x: "x = (v, t)" by (cases x)
  show ?case
  proof (cases "h = []")
    case True
    then have f: "feed meter_init (h @ [x]) = addMeterReading meter_init v t"
      by (simp add: feed_def x)
    show ?thesis unfolding f
      by (simp add: addMeterReading_def Let_def meter_init_def isMeterReadingStable_def x True)
  next
    case False
    with snoc.IH have ih: "stabilityThreshold (snd (feed meter_init h)) = 2"
      "stabilityTimeoutMs (snd (feed meter_init h)) = 5000"
      "readings (snd (feed meter_init h)) \<noteq> []"
      "stabilityTimestamp (snd (feed meter_init h)) = Some (snd (hd h))"
      by simp_all
    show ?thesis unfolding x feed_snoc
      using ih False addMeterReading_readings[OF ih(1), of v t]
      by (simp add: addMeterReading_fields)
  qed
qed

lemma feed_report:
  "fst (feed meter_init (h @ [(v, t)])) =
     (h \<noteq> [] \<and> fst (last h) = v \<and> 5000 \<le> t - snd (hd h))"
proof (cases "h = []")
  case True
  then show ?thesis
    by (simp add: feed_def addMeterReading_def Let_def meter_init_def isMeterReadingStable_def)
next
  case False
  from feed_invariant[OF False] show ?thesis
    unfolding feed_snoc using False
    by (simp add: addMeterReading_report timeSinceFirst_def)
qed

lemma sorted_hd_le_last:
  fixes ts :: "int list"
  assumes "sorted ts" and "ts \<noteq> []"
  shows "hd ts \<le> last ts"
  using assms by (cases ts) (auto simp: last_conv_nth dest: sorted_nth_mono)

text \<open>
  C2.  The filter reports a reading stable iff it equals the reading before it (the most
  recent two readings are equal) and at least 5000 ms have elapsed since the arrival of the
  first reading the filter took since it was last reset; the timestamp is not moved to the
  start of the run of equal readings.  In particular, for replies arriving at non-decreasing
  times whose last two are equal and at least 5 s apart, the filter reports stable and
  \<open>lastStable\<close> and \<open>current\<close> are that value.
\<close>

theorem meter_stable_since_first_reading:
  "fst (feed meter_init (h @ [(v, t)])) =
     (h \<noteq> [] \<and> fst (last h) = v \<and> 5000 \<le> t - snd (hd h))
   \<and> (sorted (map snd (h @ [(v, t1), (v, t2)])) \<and> 5000 \<le> t2 - t1 \<longrightarrow>
        fst (feed meter_init (h @ [(v, t1), (v, t2)]))
      \<and> lastStable (snd (feed meter_init (h @ [(v, t1), (v, t2)]))) = v
      \<and> current (snd (feed meter_init (h @ [(v, t1), (v, t2)]))) = v)"
proof (intro conjI impI)
  show "fst (feed meter_init (h @ [(v, t)])) =
     (h \<noteq> [] \<and> fst (last h) = v \<and> 5000 \<le> t - snd (hd h))"
    by (rule feed_report)
next
  assume a: "sorted (map snd (h @ [(v, t1), (v, t2)])) \<and> 5000 \<le> t2 - t1"
  let ?h = "h @ [(v, t1)]"
  have eq: "h @ [(v, t1), (v, t2)] = ?h @ [(v, t2)]" by simp
  have "sorted (map snd ?h)" using a by (simp add: sorted_append)
  from sorted_hd_le_last[OF this] have "snd (hd ?h) \<le> t1"
    by (cases h) simp_all
  with a have rep: "fst (feed meter_init (?h @ [(v, t2)]))"
    unfolding feed_report by simp
  then show "fst (feed meter_init (h @ [(v, t1), (v, t2)]))" by (simp only: eq)
  show "lastStable (snd (feed meter_init (h @ [(v, t1), (v, t2)]))) = v"
    using rep unfolding eq feed_snoc by (simp add: addMeterReading_fields)
  show "current (snd (feed meter_init (h @ [(v, t1), (v, t2)]))) = v"
    unfolding eq feed_snoc by (simp add: addMeterReading_fields)
qed

theorem meter_stable_since_first_reading_witness:
  "sorted (map snd ([(41 / 10, 0), (9, 2000)] @ [(123 / 10, 4000), (123 / 10, 9000 :: int)]))
   \<and> (5000 :: int) \<le> 9000 - 4000
   \<and> fst (feed meter_init ([(41 / 10, 0), (9, 2000)] @ [(123 / 10, 4000), (123 / 10, 9000)]))
   \<and> lastStable (snd (feed meter_init
        ([(41 / 10, 0), (9, 2000)] @ [(123 / 10, 4000), (123 / 10, 9000)]))) = 123 / 10"
  using meter_stable_since_first_reading
          [of "[(41 / 10, 0), (9, 2000)]" "123 / 10" 9000 4000 9000]
  by simp

text \<open>The filter reports stable one millisecond into a run of equal readings, because six
  seconds have passed since the first reading of all.\<close>

theorem meter_stable_before_run_is_old:
  "fst (feed meter_init [(1, 0), (2, 6000), (2, 6001)])
   \<and> \<not> spec_stable [(1, 0), (2, 6000), (2, 6001)]"
  by (simp add: feed_def addMeterReading_def Let_def meter_init_def isMeterReadingStable_def
      slice_last_def timeSinceFirst_def spec_stable_def)

section \<open>Properties of the supervisor's transition\<close>

text \<open>
  C9.  From any state \<open>s\<close> and for any target \<open>t\<close>, \<^verbatim>\<open>transition\<close> commits: the current state
  becomes \<open>t\<close>, exactly one record is appended to the history, with \<open>from\<close> the state before
  and a non-empty reason that is the given reason, or \<^verbatim>\<open>No reason provided\<close> when none is
  given, and exactly one \<^verbatim>\<open>stateChange\<close> event carrying that record is emitted.  Nothing in
  the statement depends on \<open>allowedTransitions\<close>.
\<close>

theorem transition_commits:
  "currentState (transition s t d reason now) = t
   \<and> previousState (transition s t d reason now) = Some (currentState s)
   \<and> (\<exists>details.
         stateHistory (transition s t d reason now) =
           Some ((case stateHistory s of None \<Rightarrow> [] | Some h \<Rightarrow> h) @ [details])
       \<and> emitted (transition s t d reason now) = emitted s @ [StateChange details]
       \<and> td_from details = currentState s
       \<and> td_to details = t
       \<and> td_reason details \<noteq> []
       \<and> td_reason details =
           (case reason of None \<Rightarrow> ''No reason provided''
            | Some r \<Rightarrow> if r = [] then ''No reason provided'' else r))"
  by (simp add: transition_def Let_def split: option.split)

text \<open>A transition that \<open>allowedTransitions\<close> does not list, with no reason given.\<close>

theorem transition_commits_witness:
  "REFILL_FORCE_STOP \<notin> set (allowedTransitions REFILL_OP_IDLE)
   \<and> currentState (transition (new_machine [] 0) REFILL_FORCE_STOP None None 5) = REFILL_FORCE_STOP
   \<and> (\<exists>details.
         stateHistory (transition (new_machine [] 0) REFILL_FORCE_STOP None None 5) = Some [details]
       \<and> emitted (transition (new_machine [] 0) REFILL_FORCE_STOP None None 5) = [StateChange details]
       \<and> td_from details = REFILL_OP_IDLE
       \<and> td_reason details = ''No reason provided'')"
proof -
  have init: "currentState (new_machine [] 0) = REFILL_OP_IDLE"
    "stateHistory (new_machine [] 0) = None" "emitted (new_machine [] 0) = []"
    by (simp_all add: new_machine_def)
  from transition_commits [of "new_machine [] 0" REFILL_FORCE_STOP None None 5]
  show ?thesis by (auto simp: init)
qed

section \<open>Properties of the nozzle port\<close>

lemma port_fields [simp]:
  "effects (effect e u) = effects u @ [e]"
  "pendingCommands (effect e u) = pendingCommands u"
  "timers (effect e u) = timers u"
  "effects (clearTimeout t u) = effects u @ [ClearTimeout t]"
  "pendingCommands (clearTimeout t u) = pendingCommands u"
  "timers (clearTimeout t u) = AList.delete t (timers u)"
  "effects (pending_delete k u) = effects u"
  "pendingCommands (pending_delete k u) = AList.delete k (pendingCommands u)"
  "timers (pending_delete k u) = timers u"
  by (simp_all add: effect_def clearTimeout_def pending_delete_def)

lemma reject_all_effects:
  "effects (reject_all e ps u) =
     effects u @ concat (map (\<lambda>(cid, c). [ClearTimeout (pc_timeout c), Reject (pc_promise c) e]) ps)"
  by (induction ps arbitrary: u) auto

lemma reject_all_pending:
  "pendingCommands (reject_all e ps u) =
     filter (\<lambda>(k, c). k \<notin> fst ` set ps) (pendingCommands u)"
proof (induction ps arbitrary: u)
  case Nil
  then show ?case by simp
next
  case (Cons p ps)
  obtain cid c where p: "p = (cid, c)" by (cases p)
  show ?case
    by (simp add: p Cons.IH AList.delete_eq) (rule filter_cong, auto)
qed

lemma reject_all_timers:
  "timers (reject_all e ps u) =
     filter (\<lambda>(t, x). t \<notin> (pc_timeout \<circ> snd) ` set ps) (timers u)"
proof (induction ps arbitrary: u)
  case Nil
  then show ?case by simp
next
  case (Cons p ps)
  obtain cid c where p: "p = (cid, c)" by (cases p)
  show ?case
    by (simp add: p Cons.IH AList.delete_eq) (rule filter_cong, auto)
qed

text \<open>With a listener for \<^verbatim>\<open>error\<close> attached, \<^verbatim>\<open>handleError\<close> emits the error, then clears
  the timer of every entry of the pending table and rejects the entry's request, in table
  order, and leaves the table empty.\<close>

lemma handleError_with_listener:
  assumes "errorListeners u \<noteq> 0"
  shows "fst (handleError u e) = None"
    and "pendingCommands (snd (handleError u e)) = []"
    and "effects (snd (handleError u e)) =
       effects u @ EmitError e #
         concat (map (\<lambda>(cid, c). [ClearTimeout (pc_timeout c), Reject (pc_promise c) e])
                   (pendingCommands u))"
proof -
  show "fst (handleError u e) = None" using assms by (simp add: handleError_def Let_def)
  show "pendingCommands (snd (handleError u e)) = []"
    using assms by (force simp: handleError_def Let_def reject_all_pending filter_empty_conv)
  show "effects (snd (handleError u e)) =
       effects u @ EmitError e #
         concat (map (\<lambda>(cid, c). [ClearTimeout (pc_timeout c), Reject (pc_promise c) e])
                   (pendingCommands u))"
    using assms by (simp add: handleError_def Let_def reject_all_effects)
qed

lemma port_two_pending_eval:
  "pendingCommands port_two_pending =
     [(1000, \<lparr>pc_promise = 0, pc_timeout = 0, originalCommand = ''meter_read()'',
              pc_timestamp = 1000\<rparr>),
      (1200, \<lparr>pc_promise = 1, pc_timeout = 1, originalCommand = ''rfid_get(0076)'',
              pc_timestamp = 1200\<rparr>)]"
  "effects port_two_pending =
     [SetTimeout 0, Write ''meter_read()\<newline>'', SetTimeout 1, Write ''rfid_get(0076)\<newline>'']"
  "timers port_two_pending = [(0, 1000, 0), (1, 1200, 1)]"
  "errorListeners port_two_pending = 0"
  by (simp_all add: port_two_pending_def sendCommand_def new_uart_def Let_def effect_def)

text \<open>
  C10.  The serial transport raises an error while the port, wired as the application
  wires it (no listener for \<^verbatim>\<open>error\<close>), has two requests outstanding: \<^verbatim>\<open>handleError\<close> throws
  at \<^verbatim>\<open>emit\<close> and the port is as before.  Both requests are still in the pending table, none
  is rejected, and both deadline timers stay armed.
\<close>

theorem handleError_throws_without_listener:
  "errorListeners port_two_pending = 0
   \<and> handleError port_two_pending ''port closed'' = (Some ''port closed'', port_two_pending)
   \<and> pendingCommands (snd (handleError port_two_pending ''port closed'')) =
       [(1000, \<lparr>pc_promise = 0, pc_timeout = 0, originalCommand = ''meter_read()'',
                pc_timestamp = 1000\<rparr>),
        (1200, \<lparr>pc_promise = 1, pc_timeout = 1, originalCommand = ''rfid_get(0076)'',
                pc_timestamp = 1200\<rparr>)]
   \<and> effects (snd (handleError port_two_pending ''port closed'')) =
       [SetTimeout 0, Write ''meter_read()\<newline>'', SetTimeout 1, Write ''rfid_get(0076)\<newline>'']
   \<and> timers (snd (handleError port_two_pending ''port closed'')) = [(0, 1000, 0), (1, 1200, 1)]"
  by (simp add: handleError_def port_two_pending_eval)

text \<open>Two requests sent in one millisecond share the key \<^verbatim>\<open>Date.now().toString()\<close>: the
  second entry replaces the first.  Even with a listener attached, \<^verbatim>\<open>handleError\<close> then
  rejects the second request only; the first is not rejected, its timer 0 stays armed, and
  when that timer fires it finds no entry and rejects nothing.\<close>

lemma port_same_millisecond_eval:
  "pendingCommands port_same_millisecond =
     [(1000, \<lparr>pc_promise = 1, pc_timeout = 1, originalCommand = ''meter_read()'',
              pc_timestamp = 1000\<rparr>)]"
  "effects port_same_millisecond =
     [SetTimeout 0, Write ''heartbeat()\<newline>'', SetTimeout 1, Write ''meter_read()\<newline>'']"
  "timers port_same_millisecond = [(0, 1000, 0), (1, 1000, 1)]"
  "errorListeners port_same_millisecond = 1"
  by (simp_all add: port_same_millisecond_def sendCommand_def new_uart_def Let_def effect_def)

lemma handleError_misses_overwritten_request:
  "effects (snd (handleError port_same_millisecond ''port closed'')) =
     [SetTimeout 0, Write ''heartbeat()\<newline>'', SetTimeout 1, Write ''meter_read()\<newline>'',
      EmitError ''port closed'', ClearTimeout 1, Reject 1 ''port closed'']"
  "timers (snd (handleError port_same_millisecond ''port closed'')) = [(0, 1000, 0)]"
  "effects (timer_fires (snd (handleError port_same_millisecond ''port closed'')) 0) =
     effects (snd (handleError port_same_millisecond ''port closed''))"
  by (simp_all add: handleError_def Let_def port_same_millisecond_eval timer_fires_def
      effect_def clearTimeout_def pending_delete_def)

section \<open>Evaluating the model on concrete frames and states\<close>

lemma startsWith_eval:
  "startsWith s [] = True"
  "startsWith [] (c # p) = False"
  "startsWith (a # s) (c # p) = (a = c \<and> startsWith s p)"
  by (auto simp: startsWith_def)

lemmas string_eval = startsWith_eval lit_def class1_def is_digit_def is_hex_def digits_value_def
  digit_val_def

lemmas object_defs = get_prop_def set_prop_def spread_def new_transaction_def

lemma bitlen_numeral_eval:
  "bitlen 1 = 1"
  "bitlen (numeral (Num.Bit0 n)) = bitlen (numeral n) + 1"
  "bitlen (numeral (Num.Bit1 n)) = bitlen (numeral n) + 1"
proof -
  show "bitlen 1 = 1" by (subst compute_bitlen) simp
  show "bitlen (numeral (Num.Bit0 n)) = bitlen (numeral n) + 1"
    by (subst compute_bitlen) simp
  show "bitlen (numeral (Num.Bit1 n)) = bitlen (numeral n) + 1"
    by (subst compute_bitlen) simp
qed

lemma floor_rat_numeral:
  "\<lfloor>numeral a / numeral b :: rat\<rfloor> = numeral a div numeral b"
  using floor_divide_of_int_eq[of "numeral a" "numeral b", where ?'a = rat] by simp

lemma ceiling_rat_numeral:
  "\<lceil>numeral a / numeral b :: rat\<rceil> = - (- numeral a div numeral b)"
proof -
  have "\<lfloor>of_int (- numeral a) / of_int (numeral b) :: rat\<rfloor> = - numeral a div numeral b"
    by (rule floor_divide_of_int_eq)
  then show ?thesis by (simp add: ceiling_def)
qed

lemmas double_eval = round_double_def round_half_even_def exponent2_def pow2_def double_sub_def
  bitlen_numeral_eval floor_rat_numeral ceiling_rat_numeral Let_def

text \<open>The doubles nearest to 3.1 and 4.1, and their difference, which is below 1.\<close>

lemma round_double_3_1: "round_double (31 / 10) = 6980579422424269 / 2251799813685248"
  by (simp add: double_eval)

lemma round_double_4_1: "round_double (41 / 10) = 2308094809027379 / 562949953421312"
  by (simp add: double_eval)

lemma double_sub_4_1_3_1:
  "double_sub (2308094809027379 / 562949953421312) (6980579422424269 / 2251799813685248) =
     2251799813685247 / 2251799813685248"
  by (simp add: double_eval)

lemma number_of_int_2013: "number_of_int 2013 = Finite 2013"
  by (simp add: number_of_int_def double_eval)

lemma double_sub_zero:
  "double_sub (2308094809027379 / 562949953421312) 0 = 2308094809027379 / 562949953421312"
  "double_sub (6980579422424269 / 2251799813685248) 0 = 6980579422424269 / 2251799813685248"
  by (simp_all add: double_eval)

text \<open>A frame that reaches the \<^verbatim>\<open>rfid_get\<close> branch of \<^verbatim>\<open>handleUartResponse\<close>.\<close>

lemma handleUartResponse_rfid_get:
  assumes "\<not> includes_str data ''meter_read''" and "\<not> includes_str data ''heartbeat''"
    and "\<not> includes_str data ''nhb''" and "\<not> includes_str data ''rfid_match''"
    and "\<not> includes_str data ''rfid_alarm''" and "includes_str data ''rfid_get''"
  shows "snd (handleUartResponse s data now) =
     (case parseRfidResponse data of
        Some info \<Rightarrow>
          (if currentState s = REFILL_GET_FIRST_RFID
           then processRfidResponse
                  (s\<lparr>lastUartResponse := Some data, lastNozzleHeartbeatTime := now\<rparr>) info now
           else s\<lparr>lastUartResponse := Some data, lastNozzleHeartbeatTime := now\<rparr>)
          \<lparr>emitted :=
             emitted (if currentState s = REFILL_GET_FIRST_RFID
                then processRfidResponse
                       (s\<lparr>lastUartResponse := Some data, lastNozzleHeartbeatTime := now\<rparr>) info now
                else s\<lparr>lastUartResponse := Some data, lastNozzleHeartbeatTime := now\<rparr>) @
             [Emitted ''rfidRead''
                (spread (Some info) [(''timestamp'', JNumber (Finite (of_int now)))])]\<rparr>
      | None \<Rightarrow> s\<lparr>lastUartResponse := Some data, lastNozzleHeartbeatTime := now\<rparr>)"
  using assms by (simp add: handleUartResponse_def Let_def split: option.splits)

lemma awaiting_first_rfid_eval:
  "currentState awaiting_first_rfid = REFILL_GET_FIRST_RFID"
  "fleetData awaiting_first_rfid = fleet_example"
  "vehicle awaiting_first_rfid = None"
  "currentTransaction awaiting_first_rfid = Some (new_transaction ''2025-01-01T00:00:00.000Z'')"
  "db awaiting_first_rfid = \<lparr>db_initialized = True, db_calls = []\<rparr>"
  "meterReading awaiting_first_rfid = meter_init"
  "nozzleId awaiting_first_rfid = ''0076''"
  "lastNozzleHeartbeatTime awaiting_first_rfid = 0"
  "stateHistory awaiting_first_rfid =
     Some [\<lparr>td_from = REFILL_OP_IDLE, td_to = REFILL_OP_START,
             td_reason = ''Fill operation initiated via API request'',
             td_data = [(''requestTime'', JNumber (Finite 0))], td_timestamp = 0\<rparr>,
           \<lparr>td_from = REFILL_OP_START, td_to = REFILL_GET_FIRST_RFID,
             td_reason = ''Starting RFID read sequence'',
             td_data = [(''maxRetries'', JNumber (Finite 100))], td_timestamp = 0\<rparr>]"
  by (simp_all add: awaiting_first_rfid_def transition_def initializeRefill_def fill_def
      new_machine_def Let_def)

lemma known_frame_facts:
  "parseRfidResponse ''rfid_get(0076,E200001D8914005717701BFC,2013)'' =
     Some [(''nozzleId'', JString ''0076''), (''rfidTag'', JString ''E200001D8914005717701BFC''),
           (''batteryState'', JNumber (Finite 2013))]"
  "\<not> includes_str ''rfid_get(0076,E200001D8914005717701BFC,2013)'' ''meter_read''"
  "\<not> includes_str ''rfid_get(0076,E200001D8914005717701BFC,2013)'' ''heartbeat''"
  "\<not> includes_str ''rfid_get(0076,E200001D8914005717701BFC,2013)'' ''nhb''"
  "\<not> includes_str ''rfid_get(0076,E200001D8914005717701BFC,2013)'' ''rfid_match''"
  "\<not> includes_str ''rfid_get(0076,E200001D8914005717701BFC,2013)'' ''rfid_alarm''"
  "includes_str ''rfid_get(0076,E200001D8914005717701BFC,2013)'' ''rfid_get''"
  by (simp_all add: parseRfidResponse_def rfid_get_at_def string_eval number_of_int_2013)

lemma transition_keeps:
  "vehicle (transition s t d r now) = vehicle s"
  "currentTransaction (transition s t d r now) = currentTransaction s"
  "db (transition s t d r now) = db s"
  "currentState (transition s t d r now) = t"
  "meterReading (transition s t d r now) = meterReading s"
  "lastNozzleHeartbeatTime (transition s t d r now) = lastNozzleHeartbeatTime s"
  by (simp_all add: transition_def Let_def)

lemma transition_history:
  "stateHistory (transition s t d r now) =
     Some ((case stateHistory s of None \<Rightarrow> [] | Some h \<Rightarrow> h) @
       [\<lparr>td_from = currentState s, td_to = t,
         td_reason = (case r of None \<Rightarrow> ''No reason provided''
                      | Some x \<Rightarrow> if x = [] then ''No reason provided'' else x),
         td_data = (case d of None \<Rightarrow> [] | Some x \<Rightarrow> x), td_timestamp = now\<rparr>])"
  by (simp add: transition_def Let_def)

lemma vehicle_bound_eval:
  "currentState vehicle_bound = REFILL_WAIT_FOR_DRF_SUBMIT"
  "vehicle vehicle_bound = Some (hd fleet_example)"
  "currentTransaction vehicle_bound =
     Some [(''id'', JNull), (''tagNumber'', JString ''E200001D8914005717701BFC''),
       (''pumpId'', JNull), (''operatorId'', JNull),
       (''createDate'', JString ''2025-01-01T00:00:00.000Z''),
       (''createUser'', JNull), (''dispensedLiter'', JString ''0''),
       (''currentMachineHours'', JNumber (Finite 0)),
       (''lastSavedLiters'', JNumber (Finite 0)), (''synced'', JBool False),
       (''fleetNumber'', JString ''FL-12''),
       (''tankCapacity'', JNumber (Finite 100))]"
  "db vehicle_bound = \<lparr>db_initialized = True, db_calls = []\<rparr>"
  "meterReading vehicle_bound = meter_init"
  unfolding vehicle_bound_def
    handleUartResponse_rfid_get[OF known_frame_facts(2-7)] known_frame_facts(1)
  by (simp_all add: processRfidResponse_def object_defs awaiting_first_rfid_eval
      transition_keeps fleet_example_def)

section \<open>Finalize and the store\<close>

text \<open>With a transaction and a vehicle bound, Finalize makes these store calls: for a
  positive reading the liters argument of \<^verbatim>\<open>updateTransactionLiters\<close> is the transaction's
  property \<^verbatim>\<open>DispensedLiter\<close> as it was before (the reading is written to \<^verbatim>\<open>dispensedLiter\<close>);
  otherwise the transaction is deleted.\<close>

lemma finalize_store_calls:
  assumes "currentTransaction s = Some tx" and "vehicle s = Some v" and "db_initialized (db s)"
  shows "db_calls (db (snd (finalizeTransaction s finalReading now))) =
     db_calls (db s) @
       (if finalReading > 0
        then [UpdateTransactionLiters (get_prop tx ''id'') (get_prop tx ''DispensedLiter''),
              AddLitersDispensed finalReading, ClearIncompleteTransaction]
        else [DeleteTransaction (get_prop tx ''id''), ClearIncompleteTransaction])"
  using assms
  by (simp add: finalizeTransaction_def finalize_tail_def transition_def Let_def
      updateTransactionLiters_def addLitersDispensed_def clearIncompleteTransaction_def
      deleteTransaction_def db_accept_def get_prop_def set_prop_def update_conv')

text \<open>
  C1.  Finalize with the final reading 12.3 on a refill whose vehicle is bound: the
  transaction's \<^verbatim>\<open>dispensedLiter\<close> becomes the string of 12.3, but the store's
  \<^verbatim>\<open>updateTransactionLiters\<close> is called with \<^verbatim>\<open>this.currentTransaction.DispensedLiter\<close>, a
  property that is never written: the liters persisted are \<^verbatim>\<open>undefined\<close>, not 12.3.
\<close>

theorem finalize_persists_undefined:
  "db_calls (db (snd (finalizeTransaction vehicle_bound (123 / 10) 9000))) =
     [UpdateTransactionLiters JNull JUndefined, AddLitersDispensed (123 / 10),
      ClearIncompleteTransaction]
   \<and> map_option (\<lambda>tx. get_prop tx ''dispensedLiter'')
        (currentTransaction (snd (finalizeTransaction vehicle_bound (123 / 10) 9000))) =
       Some (JNumberToString (123 / 10))
   \<and> currentState (snd (finalizeTransaction vehicle_bound (123 / 10) 9000)) = REFILL_WAIT_APP_INFORM"
  by (simp add: finalizeTransaction_def finalize_tail_def vehicle_bound_eval transition_def Let_def
      updateTransactionLiters_def addLitersDispensed_def clearIncompleteTransaction_def
      db_accept_def object_defs)

section \<open>Meter frames and the filter's three values\<close>

lemma leftmost_includes:
  assumes "\<And>s' y. f s' = Some y \<Longrightarrow> startsWith s' p" and "leftmost f s = Some x"
  shows "includes_str s p"
  using assms(2)
proof (induction s)
  case Nil
  then have "startsWith [] p" using assms(1) by simp
  then show ?case by (simp add: startsWith_def)
next
  case (Cons c cs)
  then show ?case using assms(1) by (auto split: option.splits)
qed

lemma lit_prefix:
  assumes "lit (p @ q) s = Some r"
  shows "startsWith s p"
proof -
  from assms have "take (length (p @ q)) s = p @ q"
    by (simp add: lit_def startsWith_def split: if_splits)
  then have "take (length p) (take (length (p @ q)) s) = p" by simp
  then show ?thesis by (simp add: startsWith_def min_def)
qed

lemma meter_read_at_prefix: "meter_read_at s = Some y \<Longrightarrow> startsWith s ''meter_read''"
proof -
  assume "meter_read_at s = Some y"
  then obtain r where "lit ''meter_read('' s = Some r"
    by (auto simp: meter_read_at_def split: bind_splits)
  then have "lit (''meter_read'' @ ''('') s = Some r" by simp
  then show ?thesis by (rule lit_prefix)
qed

lemma parseMeterResponse_includes:
  assumes "parseMeterResponse data = Some r"
  shows "includes_str data ''meter_read''"
proof -
  from assms obtain y where "leftmost meter_read_at data = Some y"
    by (auto simp: parseMeterResponse_def split: option.splits)
  with leftmost_includes[of meter_read_at "''meter_read''" data y] meter_read_at_prefix
  show ?thesis by blast
qed

text \<open>A frame from which a meter value is parsed takes the \<^verbatim>\<open>meter_read\<close> branch.\<close>

lemma handleUartResponse_meter:
  assumes "parseMeterResponse data = Some r"
  shows "snd (handleUartResponse s data now) =
           meter_read_branch (s\<lparr>lastUartResponse := Some data\<rparr>) r now"
  using assms parseMeterResponse_includes[OF assms] by (simp add: handleUartResponse_def Let_def)

lemma db_accept_keeps:
  "meterReading (snd (db_accept c s)) = meterReading s"
  "currentTransaction (snd (db_accept c s)) = currentTransaction s"
  "currentState (snd (db_accept c s)) = currentState s"
  "vehicle (snd (db_accept c s)) = vehicle s"
  "lastNozzleHeartbeatTime (snd (db_accept c s)) = lastNozzleHeartbeatTime s"
  by (simp_all add: db_accept_def)

lemma updateTransactionLiters_keeps:
  "meterReading (snd (updateTransactionLiters s)) = meterReading s"
  "lastNozzleHeartbeatTime (snd (updateTransactionLiters s)) = lastNozzleHeartbeatTime s"
  by (simp_all add: updateTransactionLiters_def db_accept_keeps split: option.splits)

lemma meter_read_branch_meter:
  "meterReading (meter_read_branch s r now) =
     (let m = snd (addMeterReading (meterReading s) r now)
      in if currentTransaction s \<noteq> None
            \<and> double_sub (current m) (lastSaved m) \<ge> LITER_SAVE_INTERVAL
         then m\<lparr>lastSaved := current m\<rparr> else m)"
  by (simp add: meter_read_branch_def Let_def updateTransactionLiters_keeps
      split: prod.splits option.splits)

lemma addMeterReading_lastStable:
  assumes "stabilityThreshold m = 2"
  shows "lastStable (snd (addMeterReading m r now)) =
      (if readings m \<noteq> [] \<and> last (readings m) = r
          \<and> stabilityTimeoutMs m \<le> timeSinceFirst m now
       then r else lastStable m)"
proof (cases "readings m = []")
  case True
  with addMeterReading_first[OF assms True, of r now] show ?thesis
    by (simp add: addMeterReading_fields)
next
  case False
  with addMeterReading_report[OF assms False, of r now] show ?thesis
    by (simp add: addMeterReading_fields)
qed

lemma meter_frames_eval:
  "parseMeterResponse ''meter_read(3.1)'' = Some (6980579422424269 / 2251799813685248)"
  "parseMeterResponse ''meter_read(4.1)'' = Some (2308094809027379 / 562949953421312)"
  by (simp_all add: parseMeterResponse_def meter_read_at_def string_eval
      round_double_3_1 round_double_4_1)

lemma after_3_1_eval:
  "meterReading after_3_1 =
     \<lparr>current = 6980579422424269 / 2251799813685248, lastStable = 0,
      lastSaved = 6980579422424269 / 2251799813685248, stabilityTimestamp = Some 1500,
      readings = [6980579422424269 / 2251799813685248], stabilityThreshold = 2,
      stabilityTimeoutMs = 5000\<rparr>"
  "currentTransaction after_3_1 \<noteq> None"
  unfolding after_3_1_def handleUartResponse_meter[OF meter_frames_eval(1)]
  by (simp_all add: meter_read_branch_meter meter_read_branch_def vehicle_bound_eval Let_def
      addMeterReading_def meter_init_def isMeterReadingStable_def LITER_SAVE_INTERVAL_def
      double_sub_zero updateTransactionLiters_def db_accept_def split: prod.splits)

text \<open>
  C3.  Processing a meter reading \<open>r\<close> (a reply within the range of doubles) always sets
  \<open>current\<close> to \<open>r\<close>.  \<open>lastStable\<close> changes only when \<open>r\<close> repeats the reading before it and
  the stability time has passed since the filter's first reading, and it is then set to \<open>r\<close>,
  whether \<open>r\<close> is smaller or not; otherwise it keeps its value, so a reading below
  \<open>lastStable\<close> that differs from the reading before it updates \<open>current\<close> and leaves
  \<open>lastStable\<close> alone.  \<open>lastSaved\<close> is set to \<open>r\<close> when a transaction is bound and the
  double-precision difference \<open>r - lastSaved\<close> is at least 1.0, and is otherwise unchanged.
  No order between the three values is kept.
\<close>

theorem meter_frame_update:
  "parseMeterResponse data = Some r \<and> r < 2 ^ 1024
   \<and> stabilityThreshold (meterReading s) = 2 \<longrightarrow>
     current (meterReading (snd (handleUartResponse s data now))) = r
   \<and> lastStable (meterReading (snd (handleUartResponse s data now))) =
       (if readings (meterReading s) \<noteq> [] \<and> last (readings (meterReading s)) = r
           \<and> stabilityTimeoutMs (meterReading s) \<le> timeSinceFirst (meterReading s) now
        then r else lastStable (meterReading s))
   \<and> lastSaved (meterReading (snd (handleUartResponse s data now))) =
       (if currentTransaction s \<noteq> None \<and> double_sub r (lastSaved (meterReading s)) \<ge> 1
        then r else lastSaved (meterReading s))"
proof (intro impI, elim conjE)
  assume p: "parseMeterResponse data = Some r" and th: "stabilityThreshold (meterReading s) = 2"
  note h = handleUartResponse_meter[OF p, of s now]
  show "current (meterReading (snd (handleUartResponse s data now))) = r
   \<and> lastStable (meterReading (snd (handleUartResponse s data now))) =
       (if readings (meterReading s) \<noteq> [] \<and> last (readings (meterReading s)) = r
           \<and> stabilityTimeoutMs (meterReading s) \<le> timeSinceFirst (meterReading s) now
        then r else lastStable (meterReading s))
   \<and> lastSaved (meterReading (snd (handleUartResponse s data now))) =
       (if currentTransaction s \<noteq> None \<and> double_sub r (lastSaved (meterReading s)) \<ge> 1
        then r else lastSaved (meterReading s))"
    unfolding h meter_read_branch_meter
    using addMeterReading_lastStable[OF th, of r now]
    by (simp add: Let_def addMeterReading_fields LITER_SAVE_INTERVAL_def)
qed

text \<open>After the reply 3.1 has been saved, the reply 4.1 is not: in doubles
  \<open>4.1 - 3.1 = 0.9999999999999996\<close>.\<close>

theorem meter_frame_update_witness:
  "parseMeterResponse ''meter_read(4.1)'' = Some (2308094809027379 / 562949953421312)
   \<and> (2308094809027379 / 562949953421312 :: rat) < 2 ^ 1024
   \<and> stabilityThreshold (meterReading after_3_1) = 2
   \<and> current (meterReading (snd (handleUartResponse after_3_1 ''meter_read(4.1)'' 2500))) =
       2308094809027379 / 562949953421312
   \<and> lastStable (meterReading (snd (handleUartResponse after_3_1 ''meter_read(4.1)'' 2500))) = 0
   \<and> lastSaved (meterReading (snd (handleUartResponse after_3_1 ''meter_read(4.1)'' 2500))) =
       6980579422424269 / 2251799813685248"
proof -
  have rng: "(2308094809027379 / 562949953421312 :: rat) < 2 ^ 1024" by simp
  have th: "stabilityThreshold (meterReading after_3_1) = 2" by (simp add: after_3_1_eval)
  from meter_frame_update [of "''meter_read(4.1)''" "2308094809027379 / 562949953421312"
         after_3_1 2500] meter_frames_eval(2) rng th
  show ?thesis
    by (simp add: after_3_1_eval double_sub_4_1_3_1 timeSinceFirst_def)
qed

text \<open>After 5, 5 (stable), 3 the last stable value 5 is above the current value 3; a second 3
  one millisecond later lowers \<open>lastStable\<close> to 3; and the first reading 4.1 of a refill is
  saved while \<open>lastStable\<close> is still 0.\<close>

theorem meter_order_not_kept:
  "\<not> lastStable (snd (feed meter_init [(5, 0), (5, 5000), (3, 6000)]))
       \<le> current (snd (feed meter_init [(5, 0), (5, 5000), (3, 6000)]))
   \<and> lastStable (snd (feed meter_init [(5, 0), (5, 5000), (3, 6000), (3, 6001)]))
       < lastStable (snd (feed meter_init [(5, 0), (5, 5000), (3, 6000)]))
   \<and> \<not> lastSaved (meterReading (snd (handleUartResponse vehicle_bound ''meter_read(4.1)'' 1500)))
       \<le> lastStable (meterReading (snd (handleUartResponse vehicle_bound ''meter_read(4.1)'' 1500)))"
proof -
  have a: "feed meter_init [(5, 0), (5, 5000), (3, 6000)] =
      (False, \<lparr>current = 3, lastStable = 5, lastSaved = 0, stabilityTimestamp = Some 0,
         readings = [5, 5, 3], stabilityThreshold = 2, stabilityTimeoutMs = 5000\<rparr>)"
    by (simp add: feed_def addMeterReading_def Let_def meter_init_def isMeterReadingStable_def
      slice_last_def timeSinceFirst_def)
  have b: "feed meter_init [(5, 0), (5, 5000), (3, 6000), (3, 6001)] =
      (True, \<lparr>current = 3, lastStable = 3, lastSaved = 0, stabilityTimestamp = Some 0,
         readings = [5, 5, 3, 3], stabilityThreshold = 2, stabilityTimeoutMs = 5000\<rparr>)"
    by (simp add: feed_def addMeterReading_def Let_def meter_init_def isMeterReadingStable_def
      slice_last_def timeSinceFirst_def)
  have c: "meterReading (snd (handleUartResponse vehicle_bound ''meter_read(4.1)'' 1500)) =
      \<lparr>current = 2308094809027379 / 562949953421312, lastStable = 0,
       lastSaved = 2308094809027379 / 562949953421312, stabilityTimestamp = Some 1500,
       readings = [2308094809027379 / 562949953421312], stabilityThreshold = 2,
       stabilityTimeoutMs = 5000\<rparr>"
    unfolding handleUartResponse_meter[OF meter_frames_eval(2)]
    by (simp add: meter_read_branch_meter vehicle_bound_eval Let_def addMeterReading_def
        meter_init_def isMeterReadingStable_def LITER_SAVE_INTERVAL_def double_sub_zero)
  show ?thesis by (simp add: a b c)
qed

section \<open>Properties of the operator interface\<close>

text \<open>With a valid token, \<^verbatim>\<open>refill_finish\<close> puts the machine into \<^verbatim>\<open>REFILL_FORCE_STOP\<close>
  whatever its state: the case has no check of the current state, unlike \<^verbatim>\<open>refill_req\<close> and
  \<^verbatim>\<open>refill_drf\<close>.\<close>

lemma refill_finish_any_state:
  assumes "map_of activeTokens token \<noteq> None"
  shows "currentState (snd (operation activeTokens s ''refill_finish'' token wh now)) =
           REFILL_FORCE_STOP"
  using assms by (auto simp: operation_def transition_def Let_def)

text \<open>
  C4.  An operator force-stop request with a valid token while the machine is idle: the
  request is answered \<^verbatim>\<open>refill_finished\<close> and the machine moves from \<^verbatim>\<open>REFILL_OP_IDLE\<close> to
  \<^verbatim>\<open>REFILL_FORCE_STOP\<close>; it is not rejected and the state does not stay as it was.
\<close>

theorem refill_finish_accepted_in_idle:
  "currentState (new_machine fleet_example 0) = REFILL_OP_IDLE
   \<and> fst (operation [(''token-1'', ''admin'')] (new_machine fleet_example 0)
            ''refill_finish'' ''token-1'' Absent 5) =
       Response 200 [(''response'', JString ''refill_finished''),
                     (''refill_op_liters'', JNumberToString 0)]
   \<and> currentState (snd (operation [(''token-1'', ''admin'')] (new_machine fleet_example 0)
            ''refill_finish'' ''token-1'' Absent 5)) = REFILL_FORCE_STOP"
  by (simp add: operation_def transition_def Let_def new_machine_def meter_init_def)

text \<open>
  C5.  \<^verbatim>\<open>POST /api/drf-submit\<close> answers 200 iff the machine is in
  \<^verbatim>\<open>REFILL_WAIT_FOR_DRF_SUBMIT\<close> and \<^verbatim>\<open>kilometers\<close> (\<^verbatim>\<open>parseInt\<close> of it when it is a string) is a
  finite number that is at most 1000; there is no lower bound and no test for an integer.
  On 200 the machine is in \<^verbatim>\<open>REFILL_READ_FIRST_METER\<close>; otherwise the answer is 400 and the
  machine is unchanged.
\<close>

theorem drf_submit_accepts_iff:
  "(status (fst (drf_submit s km now)) = 200) =
     (currentState s = REFILL_WAIT_FOR_DRF_SUBMIT
      \<and> (\<exists>r. kilometers_number km = Finite r \<and> r \<le> 1000))
   \<and> (status (fst (drf_submit s km now)) = 200 \<longrightarrow>
        currentState (snd (drf_submit s km now)) = REFILL_READ_FIRST_METER)
   \<and> (status (fst (drf_submit s km now)) \<noteq> 200 \<longrightarrow>
        status (fst (drf_submit s km now)) = 400 \<and> snd (drf_submit s km now) = s)"
  by (cases "kilometers_number km")
     (auto simp: drf_submit_def drf_checks_def Let_def isNaN_def isFinite_def gt_1000_def
        transition_def)

lemma parseInt_1000: "parseInt ''1000'' = Finite 1000" "parseInt ''1001'' = Finite 1001"
  by (simp_all add: parseInt_def is_js_space_def string_eval number_of_int_def double_eval)

text \<open>1000 is accepted and 1001 rejected, as a number and as a string; a request in the
  wrong state is rejected and changes nothing.\<close>

theorem drf_submit_accepts_iff_witness:
  "currentState vehicle_bound = REFILL_WAIT_FOR_DRF_SUBMIT
   \<and> status (fst (drf_submit vehicle_bound (BNumber (Finite 1000)) 2000)) = 200
   \<and> currentState (snd (drf_submit vehicle_bound (BNumber (Finite 1000)) 2000)) = REFILL_READ_FIRST_METER
   \<and> status (fst (drf_submit vehicle_bound (BString ''1000'') 2000)) = 200
   \<and> status (fst (drf_submit vehicle_bound (BNumber (Finite 1001)) 2000)) = 400
   \<and> snd (drf_submit vehicle_bound (BNumber (Finite 1001)) 2000) = vehicle_bound
   \<and> status (fst (drf_submit vehicle_bound (BString ''1001'') 2000)) = 400
   \<and> status (fst (drf_submit awaiting_first_rfid (BNumber (Finite 250)) 2000)) = 400
   \<and> snd (drf_submit awaiting_first_rfid (BNumber (Finite 250)) 2000) = awaiting_first_rfid"
  using drf_submit_accepts_iff [of vehicle_bound "BNumber (Finite 1000)" 2000]
        drf_submit_accepts_iff [of vehicle_bound "BString ''1000''" 2000]
        drf_submit_accepts_iff [of vehicle_bound "BNumber (Finite 1001)" 2000]
        drf_submit_accepts_iff [of vehicle_bound "BString ''1001''" 2000]
        drf_submit_accepts_iff [of awaiting_first_rfid "BNumber (Finite 250)" 2000]
  by (simp add: vehicle_bound_eval awaiting_first_rfid_eval kilometers_number_def parseInt_1000)

text \<open>A negative odometer value submitted in \<^verbatim>\<open>REFILL_WAIT_FOR_DRF_SUBMIT\<close> is accepted.\<close>

theorem drf_submit_negative_accepted:
  "currentState vehicle_bound = REFILL_WAIT_FOR_DRF_SUBMIT
   \<and> status (fst (drf_submit vehicle_bound (BNumber (Finite (- 5))) 2000)) = 200
   \<and> currentState (snd (drf_submit vehicle_bound (BNumber (Finite (- 5))) 2000)) = REFILL_READ_FIRST_METER"
  by (simp add: drf_submit_def drf_checks_def Let_def isNaN_def isFinite_def gt_1000_def
        transition_def vehicle_bound_eval kilometers_number_def)

section \<open>Replies to \<^verbatim>\<open>rfid_get\<close> and the nozzle heartbeat\<close>

lemma class1_Some:
  assumes "class1 p s = Some (g, r)"
  shows "g \<noteq> []" and "\<forall>c \<in> set g. p c"
proof -
  from assms have g: "g = takeWhile p s" and ne: "takeWhile p s \<noteq> []"
    by (simp_all add: class1_def split: if_splits)
  show "g \<noteq> []" using g ne by simp
  show "\<forall>c \<in> set g. p c" unfolding g by (blast dest: set_takeWhileD)
qed

lemma not_hex_dash: "\<not> is_hex CHR ''-''"
  by (simp add: is_hex_def)

lemma hex_not_dash:
  assumes "\<forall>c \<in> set g2. is_hex c"
  shows "g2 \<noteq> ''-''"
proof
  assume "g2 = ''-''"
  with assms have "is_hex CHR ''-''" by simp
  with not_hex_dash show False by simp
qed


lemma rfid_get_at_parts:
  assumes "rfid_get_at s = Some (g1, g2, g3)"
  shows "\<exists>r1. lit ''rfid_get('' s = Some r1" and "\<exists>r3 r4. class1 is_hex r3 = Some (g2, r4)"
proof -
  from assms obtain r1 where r1: "lit ''rfid_get('' s = Some r1"
    and a1: "(class1 is_digit r1 \<bind> (\<lambda>(g1, r2). lit '','' r2 \<bind> (\<lambda>r3.
               class1 is_hex r3 \<bind> (\<lambda>(g2, r4). lit '','' r4 \<bind> (\<lambda>r5.
               class1 is_digit r5 \<bind> (\<lambda>(g3, r6). lit '')'' r6 \<bind> (\<lambda>_.
               Some (g1, g2, g3)))))))) = Some (g1, g2, g3)"
    unfolding rfid_get_at_def by (cases "lit ''rfid_get('' s") simp_all
  show "\<exists>r1. lit ''rfid_get('' s = Some r1" using r1 by blast
  from a1 obtain h1 r2 where a2: "(lit '','' r2 \<bind> (\<lambda>r3.
               class1 is_hex r3 \<bind> (\<lambda>(g2, r4). lit '','' r4 \<bind> (\<lambda>r5.
               class1 is_digit r5 \<bind> (\<lambda>(g3, r6). lit '')'' r6 \<bind> (\<lambda>_.
               Some (h1, g2, g3))))))) = Some (g1, g2, g3)"
    by (cases "class1 is_digit r1") auto
  from a2 obtain r3 where a3: "(class1 is_hex r3 \<bind> (\<lambda>(g2, r4). lit '','' r4 \<bind> (\<lambda>r5.
               class1 is_digit r5 \<bind> (\<lambda>(g3, r6). lit '')'' r6 \<bind> (\<lambda>_.
               Some (h1, g2, g3)))))) = Some (g1, g2, g3)"
    by (cases "lit '','' r2") auto
  from a3 obtain h2 r4 where c: "class1 is_hex r3 = Some (h2, r4)"
    and a4: "(lit '','' r4 \<bind> (\<lambda>r5.
               class1 is_digit r5 \<bind> (\<lambda>(g3, r6). lit '')'' r6 \<bind> (\<lambda>_.
               Some (h1, h2, g3))))) = Some (g1, g2, g3)"
    by (cases "class1 is_hex r3") auto
  from a4 obtain r5 where a5: "(class1 is_digit r5 \<bind> (\<lambda>(g3, r6). lit '')'' r6 \<bind> (\<lambda>_.
               Some (h1, h2, g3)))) = Some (g1, g2, g3)"
    by (cases "lit '','' r4") auto
  from a5 obtain h3 r6 where a6: "(lit '')'' r6 \<bind> (\<lambda>_. Some (h1, h2, h3))) = Some (g1, g2, g3)"
    by (cases "class1 is_digit r5") auto
  from a6 have "h2 = g2" by (cases "lit '')'' r6") auto
  with c show "\<exists>r3 r4. class1 is_hex r3 = Some (g2, r4)" by blast
qed

lemma leftmost_Some: "leftmost f s = Some x \<Longrightarrow> \<exists>s'. f s' = Some x"
  by (induction s) (auto split: option.splits)

lemma rfid_get_at_tag:
  assumes "rfid_get_at s = Some (g1, g2, g3)"
  shows "g2 \<noteq> ''-''"
proof -
  from rfid_get_at_parts(2)[OF assms] obtain r3 r4 where "class1 is_hex r3 = Some (g2, r4)"
    by blast
  from class1_Some(2)[OF this] show ?thesis by (rule hex_not_dash)
qed

lemma rfid_get_at_prefix:
  assumes "rfid_get_at s = Some y"
  shows "startsWith s ''rfid_get''"
proof -
  obtain g1 g2 g3 where "y = (g1, g2, g3)" by (cases y)
  with assms rfid_get_at_parts(1) obtain r where "lit ''rfid_get('' s = Some r" by blast
  then have "lit (''rfid_get'' @ ''('') s = Some r" by simp
  then show ?thesis by (rule lit_prefix)
qed

lemma parseRfidResponse_Some:
  assumes "parseRfidResponse data = Some info"
  shows "includes_str data ''rfid_get''"
    and "get_prop info ''rfidTag'' \<noteq> JString ''-''"
proof -
  from assms obtain g1 g2 g3 where l: "leftmost rfid_get_at data = Some (g1, g2, g3)"
    and info: "info = [(''nozzleId'', JString g1), (''rfidTag'', JString g2),
                (''batteryState'', JNumber (number_of_int (int (digits_value 10 g3))))]"
    by (auto simp: parseRfidResponse_def split: option.splits)
  from l leftmost_includes[of rfid_get_at "''rfid_get''" data "(g1, g2, g3)"] rfid_get_at_prefix
  show "includes_str data ''rfid_get''" by blast
  from leftmost_Some[OF l] obtain s' where "rfid_get_at s' = Some (g1, g2, g3)" ..
  from rfid_get_at_tag[OF this] show "get_prop info ''rfidTag'' \<noteq> JString ''-''"
    by (simp add: info get_prop_def)
qed

text \<open>
  C6.  In \<^verbatim>\<open>REFILL_GET_FIRST_RFID\<close>, an \<^verbatim>\<open>rfid_get\<close> reply from which a tag is parsed is
  looked up in the directory listing at once.  A tag that is listed binds the first vehicle
  listed with it, writes the tag and the vehicle's fleet number and tank capacity into the
  transaction, and moves the machine to \<^verbatim>\<open>REFILL_WAIT_FOR_DRF_SUBMIT\<close>, recording the reason
  \<^verbatim>\<open>Valid RFID tag detected and validated against fleet database\<close>.  A tag that is not listed
  moves the machine to \<^verbatim>\<open>REFILL_OP_IDLE\<close>, recording the reason
  \<^verbatim>\<open>RFID tag validation failed - tag not found in fleet database\<close>; the reply binds no
  vehicle: the vehicle field and the transaction object are left as they were.  Neither
  case calls the store.
\<close>

theorem first_rfid_reply:
  "currentState s = REFILL_GET_FIRST_RFID \<and> parseRfidResponse data = Some info
   \<and> \<not> includes_str data ''meter_read'' \<and> \<not> includes_str data ''heartbeat''
   \<and> \<not> includes_str data ''nhb'' \<and> \<not> includes_str data ''rfid_match''
   \<and> \<not> includes_str data ''rfid_alarm'' \<longrightarrow>
     (case find (\<lambda>v. get_prop v ''TagNumber'' = get_prop info ''rfidTag'') (fleetData s) of
        Some v \<Rightarrow>
          currentState (snd (handleUartResponse s data now)) = REFILL_WAIT_FOR_DRF_SUBMIT
          \<and> vehicle (snd (handleUartResponse s data now)) = Some v
          \<and> currentTransaction (snd (handleUartResponse s data now)) =
              Some (spread (currentTransaction s)
                     [(''tagNumber'', get_prop info ''rfidTag''),
                      (''fleetNumber'', get_prop v ''FleetNumber''),
                      (''tankCapacity'', get_prop v ''VehicleTankCapacity'')])
          \<and> stateHistory (snd (handleUartResponse s data now)) =
              Some ((case stateHistory s of None \<Rightarrow> [] | Some h \<Rightarrow> h) @
                [\<lparr>td_from = REFILL_GET_FIRST_RFID, td_to = REFILL_WAIT_FOR_DRF_SUBMIT,
                  td_reason = ''Valid RFID tag detected and validated against fleet database'',
                  td_data = [(''vehicle'', JObject v), (''rfidInfo'', JObject info)],
                  td_timestamp = now\<rparr>])
      | None \<Rightarrow>
          currentState (snd (handleUartResponse s data now)) = REFILL_OP_IDLE
          \<and> vehicle (snd (handleUartResponse s data now)) = vehicle s
          \<and> currentTransaction (snd (handleUartResponse s data now)) = currentTransaction s
          \<and> stateHistory (snd (handleUartResponse s data now)) =
              Some ((case stateHistory s of None \<Rightarrow> [] | Some h \<Rightarrow> h) @
                [\<lparr>td_from = REFILL_GET_FIRST_RFID, td_to = REFILL_OP_IDLE,
                  td_reason = ''RFID tag validation failed - tag not found in fleet database'',
                  td_data = [(''rfidInfo'', JObject info)], td_timestamp = now\<rparr>]))
     \<and> db (snd (handleUartResponse s data now)) = db s"
proof (intro impI, elim conjE)
  assume st: "currentState s = REFILL_GET_FIRST_RFID"
    and p: "parseRfidResponse data = Some info"
    and n: "\<not> includes_str data ''meter_read''" "\<not> includes_str data ''heartbeat''"
      "\<not> includes_str data ''nhb''" "\<not> includes_str data ''rfid_match''"
      "\<not> includes_str data ''rfid_alarm''"
  note h = handleUartResponse_rfid_get[OF n parseRfidResponse_Some(1)[OF p], of s now]
  let ?s1 = "s\<lparr>lastUartResponse := Some data, lastNozzleHeartbeatTime := now\<rparr>"
  have r: "snd (handleUartResponse s data now) =
      (processRfidResponse ?s1 info now)\<lparr>emitted := emitted (processRfidResponse ?s1 info now) @
         [Emitted ''rfidRead''
            (spread (Some info) [(''timestamp'', JNumber (Finite (of_int now)))])]\<rparr>"
    unfolding h using st p by simp
  show "(case find (\<lambda>v. get_prop v ''TagNumber'' = get_prop info ''rfidTag'') (fleetData s) of
        Some v \<Rightarrow>
          currentState (snd (handleUartResponse s data now)) = REFILL_WAIT_FOR_DRF_SUBMIT
          \<and> vehicle (snd (handleUartResponse s data now)) = Some v
          \<and> currentTransaction (snd (handleUartResponse s data now)) =
              Some (spread (currentTransaction s)
                     [(''tagNumber'', get_prop info ''rfidTag''),
                      (''fleetNumber'', get_prop v ''FleetNumber''),
                      (''tankCapacity'', get_prop v ''VehicleTankCapacity'')])
          \<and> stateHistory (snd (handleUartResponse s data now)) =
              Some ((case stateHistory s of None \<Rightarrow> [] | Some h \<Rightarrow> h) @
                [\<lparr>td_from = REFILL_GET_FIRST_RFID, td_to = REFILL_WAIT_FOR_DRF_SUBMIT,
                  td_reason = ''Valid RFID tag detected and validated against fleet database'',
                  td_data = [(''vehicle'', JObject v), (''rfidInfo'', JObject info)],
                  td_timestamp = now\<rparr>])
      | None \<Rightarrow>
          currentState (snd (handleUartResponse s data now)) = REFILL_OP_IDLE
          \<and> vehicle (snd (handleUartResponse s data now)) = vehicle s
          \<and> currentTransaction (snd (handleUartResponse s data now)) = currentTransaction s
          \<and> stateHistory (snd (handleUartResponse s data now)) =
              Some ((case stateHistory s of None \<Rightarrow> [] | Some h \<Rightarrow> h) @
                [\<lparr>td_from = REFILL_GET_FIRST_RFID, td_to = REFILL_OP_IDLE,
                  td_reason = ''RFID tag validation failed - tag not found in fleet database'',
                  td_data = [(''rfidInfo'', JObject info)], td_timestamp = now\<rparr>]))
     \<and> db (snd (handleUartResponse s data now)) = db s"
    unfolding r using parseRfidResponse_Some(2)[OF p] st
    by (simp add: processRfidResponse_def transition_keeps transition_history
        split: option.splits)
qed

lemma unknown_frame_facts:
  "parseRfidResponse ''rfid_get(0076,AAAAAAAAAAAAAAAAAAAAAAAA,2013)'' =
     Some [(''nozzleId'', JString ''0076''), (''rfidTag'', JString ''AAAAAAAAAAAAAAAAAAAAAAAA''),
           (''batteryState'', JNumber (Finite 2013))]"
  "\<not> includes_str ''rfid_get(0076,AAAAAAAAAAAAAAAAAAAAAAAA,2013)'' ''meter_read''"
  "\<not> includes_str ''rfid_get(0076,AAAAAAAAAAAAAAAAAAAAAAAA,2013)'' ''heartbeat''"
  "\<not> includes_str ''rfid_get(0076,AAAAAAAAAAAAAAAAAAAAAAAA,2013)'' ''nhb''"
  "\<not> includes_str ''rfid_get(0076,AAAAAAAAAAAAAAAAAAAAAAAA,2013)'' ''rfid_match''"
  "\<not> includes_str ''rfid_get(0076,AAAAAAAAAAAAAAAAAAAAAAAA,2013)'' ''rfid_alarm''"
  "includes_str ''rfid_get(0076,AAAAAAAAAAAAAAAAAAAAAAAA,2013)'' ''rfid_get''"
  by (simp_all add: parseRfidResponse_def rfid_get_at_def string_eval number_of_int_2013)

lemma unknown_tag_not_listed:
  "find (\<lambda>v. get_prop v ''TagNumber'' = JString ''AAAAAAAAAAAAAAAAAAAAAAAA'') fleet_example = None"
  by (simp add: fleet_example_def get_prop_def)

text \<open>The reply of scenario S2 with an unknown tag, and the reply with the listed tag.\<close>

theorem first_rfid_reply_witness:
  "currentState awaiting_first_rfid = REFILL_GET_FIRST_RFID
   \<and> parseRfidResponse ''rfid_get(0076,AAAAAAAAAAAAAAAAAAAAAAAA,2013)'' =
       Some [(''nozzleId'', JString ''0076''), (''rfidTag'', JString ''AAAAAAAAAAAAAAAAAAAAAAAA''),
             (''batteryState'', JNumber (Finite 2013))]
   \<and> currentState (snd (handleUartResponse awaiting_first_rfid
         ''rfid_get(0076,AAAAAAAAAAAAAAAAAAAAAAAA,2013)'' 1000)) = REFILL_OP_IDLE
   \<and> vehicle (snd (handleUartResponse awaiting_first_rfid
         ''rfid_get(0076,AAAAAAAAAAAAAAAAAAAAAAAA,2013)'' 1000)) = None
   \<and> currentTransaction (snd (handleUartResponse awaiting_first_rfid
         ''rfid_get(0076,AAAAAAAAAAAAAAAAAAAAAAAA,2013)'' 1000)) =
       Some (new_transaction ''2025-01-01T00:00:00.000Z'')
   \<and> map td_reason (the (stateHistory (snd (handleUartResponse awaiting_first_rfid
         ''rfid_get(0076,AAAAAAAAAAAAAAAAAAAAAAAA,2013)'' 1000)))) =
       [''Fill operation initiated via API request'', ''Starting RFID read sequence'',
        ''RFID tag validation failed - tag not found in fleet database'']
   \<and> db_calls (db (snd (handleUartResponse awaiting_first_rfid
         ''rfid_get(0076,AAAAAAAAAAAAAAAAAAAAAAAA,2013)'' 1000))) = []
   \<and> currentState (snd (handleUartResponse awaiting_first_rfid
         ''rfid_get(0076,E200001D8914005717701BFC,2013)'' 1000)) = REFILL_WAIT_FOR_DRF_SUBMIT
   \<and> vehicle (snd (handleUartResponse awaiting_first_rfid
         ''rfid_get(0076,E200001D8914005717701BFC,2013)'' 1000)) = Some (hd fleet_example)
   \<and> map td_reason (the (stateHistory (snd (handleUartResponse awaiting_first_rfid
         ''rfid_get(0076,E200001D8914005717701BFC,2013)'' 1000)))) =
       [''Fill operation initiated via API request'', ''Starting RFID read sequence'',
        ''Valid RFID tag detected and validated against fleet database'']"
proof -
  have tag: "get_prop [(''nozzleId'', JString ''0076''),
        (''rfidTag'', JString ''AAAAAAAAAAAAAAAAAAAAAAAA''),
        (''batteryState'', JNumber (Finite 2013))] ''rfidTag'' = JString ''AAAAAAAAAAAAAAAAAAAAAAAA''"
    by (simp add: get_prop_def)
  have tag2: "find (\<lambda>v. get_prop v ''TagNumber'' = get_prop [(''nozzleId'', JString ''0076''),
        (''rfidTag'', JString ''E200001D8914005717701BFC''),
        (''batteryState'', JNumber (Finite 2013))] ''rfidTag'') fleet_example = Some (hd fleet_example)"
    by (simp add: get_prop_def fleet_example_def)
  from first_rfid_reply [of awaiting_first_rfid
          "''rfid_get(0076,AAAAAAAAAAAAAAAAAAAAAAAA,2013)''"
          "[(''nozzleId'', JString ''0076''), (''rfidTag'', JString ''AAAAAAAAAAAAAAAAAAAAAAAA''),
            (''batteryState'', JNumber (Finite 2013))]" 1000]
       first_rfid_reply [of awaiting_first_rfid
          "''rfid_get(0076,E200001D8914005717701BFC,2013)''"
          "[(''nozzleId'', JString ''0076''), (''rfidTag'', JString ''E200001D8914005717701BFC''),
            (''batteryState'', JNumber (Finite 2013))]" 1000]
  show ?thesis
    by (simp add: unknown_frame_facts known_frame_facts awaiting_first_rfid_eval tag tag2
        unknown_tag_not_listed del: includes_str.simps)
qed

text \<open>The machine does not stay in \<^verbatim>\<open>REFILL_GET_FIRST_RFID\<close> on an unknown tag.\<close>

theorem unknown_tag_leaves_first_rfid:
  "currentState awaiting_first_rfid = REFILL_GET_FIRST_RFID
   \<and> find (\<lambda>v. get_prop v ''TagNumber'' = JString ''AAAAAAAAAAAAAAAAAAAAAAAA'')
        (fleetData awaiting_first_rfid) = None
   \<and> currentState (snd (handleUartResponse awaiting_first_rfid
         ''rfid_get(0076,AAAAAAAAAAAAAAAAAAAAAAAA,2013)'' 1000)) = REFILL_OP_IDLE"
proof -
  have tag: "get_prop [(''nozzleId'', JString ''0076''),
        (''rfidTag'', JString ''AAAAAAAAAAAAAAAAAAAAAAAA''),
        (''batteryState'', JNumber (Finite 2013))] ''rfidTag'' = JString ''AAAAAAAAAAAAAAAAAAAAAAAA''"
    by (simp add: get_prop_def)
  show ?thesis
    unfolding handleUartResponse_rfid_get[OF unknown_frame_facts(2-7)] unknown_frame_facts(1)
    by (simp add: processRfidResponse_def awaiting_first_rfid_eval unknown_tag_not_listed
        tag transition_keeps)
qed

lemma foreign_frame_facts:
  "\<not> includes_str ''rfid_get(0099,E200001D8914005717701BFC,2013)'' ''meter_read''"
  "\<not> includes_str ''rfid_get(0099,E200001D8914005717701BFC,2013)'' ''heartbeat''"
  "\<not> includes_str ''rfid_get(0099,E200001D8914005717701BFC,2013)'' ''nhb''"
  "\<not> includes_str ''rfid_get(0099,E200001D8914005717701BFC,2013)'' ''rfid_match''"
  "\<not> includes_str ''rfid_get(0099,E200001D8914005717701BFC,2013)'' ''rfid_alarm''"
  "includes_str ''rfid_get(0099,E200001D8914005717701BFC,2013)'' ''rfid_get''"
  by (simp_all add: string_eval)

lemma processRfidResponse_nozzle_time:
  "lastNozzleHeartbeatTime (processRfidResponse s info now) = lastNozzleHeartbeatTime s"
  by (simp add: processRfidResponse_def transition_keeps split: option.splits)

text \<open>Every frame that reaches the \<^verbatim>\<open>rfid_get\<close> branch refreshes the nozzle heartbeat time,
  whatever nozzle id it carries and whether or not it parses.\<close>

lemma rfid_get_frame_refreshes:
  assumes "\<not> includes_str data ''meter_read''" and "\<not> includes_str data ''heartbeat''"
    and "\<not> includes_str data ''nhb''" and "\<not> includes_str data ''rfid_match''"
    and "\<not> includes_str data ''rfid_alarm''" and "includes_str data ''rfid_get''"
  shows "lastNozzleHeartbeatTime (snd (handleUartResponse s data now)) = now"
  unfolding handleUartResponse_rfid_get[OF assms]
  by (simp add: processRfidResponse_nozzle_time split: option.splits)

text \<open>
  C7.  An \<^verbatim>\<open>rfid_get\<close> reply carrying the nozzle id 0099, received by the machine configured
  for nozzle 0076, refreshes the nozzle heartbeat time: the \<^verbatim>\<open>rfid_get\<close> branch sets
  \<^verbatim>\<open>lastNozzleHeartbeatTime\<close> before looking at the reply, while the \<^verbatim>\<open>nhb\<close>, \<^verbatim>\<open>rfid_match\<close>
  and \<^verbatim>\<open>rfid_alarm\<close> branches compare the id first.
\<close>

theorem foreign_rfid_get_refreshes_nozzle_heartbeat:
  "nozzleId awaiting_first_rfid = ''0076''
   \<and> lastNozzleHeartbeatTime awaiting_first_rfid = 0
   \<and> lastNozzleHeartbeatTime (snd (handleUartResponse awaiting_first_rfid
        ''rfid_get(0099,E200001D8914005717701BFC,2013)'' 41000)) = 41000"
  by (simp add: rfid_get_frame_refreshes[OF foreign_frame_facts] awaiting_first_rfid_eval
      del: includes_str.simps)

text \<open>Meter replies and board heartbeat replies leave the nozzle heartbeat time alone.\<close>

lemma meter_read_branch_nozzle_time:
  "lastNozzleHeartbeatTime (meter_read_branch s r now) = lastNozzleHeartbeatTime s"
  by (simp add: meter_read_branch_def Let_def updateTransactionLiters_keeps
      split: prod.splits option.splits)

lemma meter_frame_keeps_nozzle_time:
  assumes "includes_str data ''meter_read''"
  shows "lastNozzleHeartbeatTime (snd (handleUartResponse s data now)) = lastNozzleHeartbeatTime s"
proof (cases "parseMeterResponse data")
  case None
  with assms show ?thesis by (simp add: handleUartResponse_def Let_def)
next
  case (Some r)
  with assms show ?thesis
    by (simp add: handleUartResponse_def Let_def meter_read_branch_nozzle_time)
qed

lemma heartbeat_frame_keeps_nozzle_time:
  assumes "includes_str data ''heartbeat''"
  shows "lastNozzleHeartbeatTime (snd (handleUartResponse s data now)) = lastNozzleHeartbeatTime s"
proof (cases "includes_str data ''meter_read''")
  case True
  then show ?thesis by (rule meter_frame_keeps_nozzle_time)
next
  case False
  with assms show ?thesis by (simp add: handleUartResponse_def Let_def)
qed

section \<open>Correlation of replies in the nozzle port\<close>










end
